theory Spec2Isabelle
  imports Complex_Main "HOL-Library.Word"
begin

section \<open>TypeScript values, optional fields and effects\<close>

text \<open>
  A JavaScript value as far as the worker handles one: the opaque \<open>metaData\<close> bag and the
  objects handed to the logger. An object is its list of own properties, in insertion order.
\<close>

datatype js_value =
    JUndefined
  | JNull
  | JBool bool
  | JNum real
  | JStr string
  | JObj "(string \<times> js_value) list"

type_synonym js_object = "(string \<times> js_value) list"

text \<open>
  A JavaScript number is a \<open>real\<close>: the numbers of a job arrive as JSON and the content
  probe reads integer properties, so \<open>NaN\<close> and the infinities do not occur.
  Bytes of a \<open>Buffer\<close> or \<open>Uint8Array\<close> are a list of octets.
\<close>

type_synonym bytes = "8 word list"

text \<open>
  An optional field \<open>f?: T\<close> is a \<open>T option\<close>, \<open>None\<close> standing for \<open>undefined\<close>.
  \<open>nullish a b\<close> is \<open>a ?? b\<close> and \<open>optChain r f\<close> is \<open>r?.f\<close>.
\<close>

definition nullish :: "'a option \<Rightarrow> 'a \<Rightarrow> 'a" where
  "nullish a b = (case a of None \<Rightarrow> b | Some v \<Rightarrow> v)"

definition optChain :: "'r option \<Rightarrow> ('r \<Rightarrow> 'a option) \<Rightarrow> 'a option" where
  "optChain r f = (case r of None \<Rightarrow> None | Some v \<Rightarrow> f v)"

text \<open>
  A thrown \<open>Error\<close> instance, with its \<open>message\<close> and \<open>stack\<close>. The collaborators
  reject with \<open>Error\<close> instances only, so \<open>err instanceof Error\<close> holds in every handler.
\<close>

datatype error = Error (message: string) (stack: string)

text \<open>
  An asynchronous computation is run to its end: it yields the calls it made on its
  collaborators, in order, and either the error it rejected with or its value.
\<close>

type_synonym ('e, 'a) eff = "'e list \<times> (error + 'a)"

definition ret :: "'a \<Rightarrow> ('e, 'a) eff" where
  "ret v = ([], Inr v)"

definition emit :: "'e \<Rightarrow> ('e, unit) eff" where
  "emit e = ([e], Inr ())"

text \<open>\<open>await e r\<close>: the call \<open>e\<close> is made on a collaborator, whose outcome is \<open>r\<close>.\<close>

definition await :: "'e \<Rightarrow> error + 'a \<Rightarrow> ('e, 'a) eff" where
  "await e r = ([e], r)"

text \<open>Sequencing: a rejection skips the rest.\<close>

definition andThen :: "('e, 'a) eff \<Rightarrow> ('a \<Rightarrow> ('e, 'b) eff) \<Rightarrow> ('e, 'b) eff" where
  "andThen m f =
     (case m of
        (t, Inl e) \<Rightarrow> (t, Inl e)
      | (t, Inr v) \<Rightarrow> (case f v of (t', r) \<Rightarrow> (t @ t', r)))"

text \<open>
  \<open>try { body } finally { fin }\<close>: the finaliser always runs; when it throws, its error
  replaces whatever the body completed with, as ECMAScript defines.
\<close>

definition tryFinally :: "('e, 'a) eff \<Rightarrow> ('e, unit) eff \<Rightarrow> ('e, 'a) eff" where
  "tryFinally body fin =
     (case body of
        (t, r) \<Rightarrow>
          (case fin of
             (t', Inl e') \<Rightarrow> (t @ t', Inl e')
           | (t', Inr _) \<Rightarrow> (t @ t', r)))"

text \<open>\<open>try { body } catch (err) { handler }\<close>.\<close>

definition tryCatch :: "('e, 'a) eff \<Rightarrow> (error \<Rightarrow> ('e, 'a) eff) \<Rightarrow> ('e, 'a) eff" where
  "tryCatch body handler =
     (case body of
        (t, Inl e) \<Rightarrow> (case handler e of (t', r) \<Rightarrow> (t @ t', r))
      | (t, Inr v) \<Rightarrow> (t, Inr v))"

section \<open>Job payload (generate-document.job.ts)\<close>

datatype pdf_format = A4 | Letter | Legal

record Margin =
  margin_top :: "string option"
  margin_right :: "string option"
  margin_bottom :: "string option"
  margin_left :: "string option"

record PdfOptions =
  format :: "pdf_format option"
  landscape :: "bool option"
  printBackground :: "bool option"
  margin :: "Margin option"
  tagged :: "bool option"
  preferCSSPageSize :: "bool option"

datatype image_type = Png | Jpeg | Webp

record Clip =
  clip_x :: real
  clip_y :: real
  clip_width :: real
  clip_height :: real

record ImageOptions =
  type :: "image_type option"
  quality :: "real option"
  fullPage :: "bool option"
  deviceScaleFactor :: "real option"
  hasTouch :: "bool option"
  isLandscape :: "bool option"
  isMobile :: "bool option"
  width :: "real option"
  height :: "real option"
  clip :: "Clip option"
  omitBackground :: "bool option"

datatype documentType = Pdf | Image

record GenerateDocumentJobData =
  userId :: string
  documentType :: documentType
  htmlContent :: string
  s3Key :: string
  pdfOptions :: "PdfOptions option"
  imageOptions :: "ImageOptions option"
  metaData :: js_value

section \<open>Rendering service (puppeteer.service.ts)\<close>

subsection \<open>Requests sent to the browser\<close>

text \<open>The viewport given to \<open>puppeteer.launch\<close> as \<open>defaultViewport\<close>.\<close>

record Viewport =
  vp_deviceScaleFactor :: real
  vp_hasTouch :: bool
  vp_isLandscape :: bool
  vp_isMobile :: bool
  vp_width :: real
  vp_height :: real

text \<open>The argument of \<open>puppeteer.launch\<close>; \<open>defaultViewport\<close> is a key only on the image path.\<close>

record LaunchOptions =
  args :: "string list"
  executablePath :: string
  headless :: bool
  defaultViewport :: "Viewport option"

text \<open>The argument of \<open>page.pdf\<close>.\<close>

record PdfRequest =
  pdf_format :: pdf_format
  pdf_landscape :: bool
  pdf_printBackground :: bool
  pdf_margin :: Margin
  pdf_tagged :: bool
  pdf_preferCSSPageSize :: bool

text \<open>
  The argument of \<open>page.screenshot\<close>. The object is built from a literal with \<open>type\<close> and
  \<open>omitBackground\<close>; \<open>quality\<close>, \<open>clip\<close> and \<open>fullPage\<close> are keys added by assignment, so
  \<open>None\<close> is a key that was never assigned and \<open>Some v\<close> a key holding \<open>v\<close>.
\<close>

record ScreenshotOptions =
  ss_type :: image_type
  ss_omitBackground :: bool
  ss_quality :: "real option"
  ss_clip :: "Clip option"
  ss_fullPage :: "bool option"

datatype waitUntil = Load | Networkidle0 | Networkidle2

text \<open>What the probe evaluated in the page returns: the body's scroll width and height.\<close>

record ContentDimensions =
  content_width :: real
  content_height :: real

subsection \<open>Collaborators and the calls made on them\<close>

text \<open>
  The collaborators of one render call: the configuration service, the chromium package,
  puppeteer, the browser and its page. Each operation is called at most once in a render
  call, so its outcome is a function of its arguments.
\<close>

record engine =
  config_localChromiumPath :: "string option"
  chromium_executablePath :: "error + string"
  chromium_args :: "string list"
  puppeteer_defaultArgs :: "string list \<Rightarrow> bool \<Rightarrow> string list"
  puppeteer_launch :: "LaunchOptions \<Rightarrow> error + unit"
  browser_newPage :: "error + unit"
  page_setContent :: "string \<Rightarrow> waitUntil list \<Rightarrow> error + unit"
  page_pdf :: "PdfRequest \<Rightarrow> error + bytes"
  page_evaluate :: "error + ContentDimensions"
  page_screenshot :: "ScreenshotOptions \<Rightarrow> error + bytes"
  browser_close :: "error + unit"

text \<open>
  The calls a render makes, in order. \<open>LogCustomClip\<close>, \<open>LogAutoFitClip\<close> and
  \<open>LogFullPage\<close> are the three text messages of the clip strategy.
\<close>

datatype event =
    LoggerLog js_object
  | LogCustomClip Clip
  | LogAutoFitClip Clip
  | LogFullPage
  | ChromiumExecutablePath
  | SetGraphicsMode bool
  | Launch LaunchOptions
  | NewPage
  | SetContent string "waitUntil list"
  | PagePdf PdfRequest
  | Evaluate
  | Screenshot ScreenshotOptions
  | Close

subsection \<open>getExecutablePath\<close>

text \<open>
  \<open>if (localPath)\<close>: \<open>undefined\<close> and the empty string are falsy, and both take the
  fallback to the binary of the chromium package.
\<close>

definition getExecutablePath :: "engine \<Rightarrow> (event, string) eff" where
  "getExecutablePath env =
     (let fallback =
            andThen (await ChromiumExecutablePath (chromium_executablePath env)) (\<lambda>executablePath.
            andThen (emit (LoggerLog [(''msg'', JStr ''Using @sparticuz/chromium Chromium''),
                                      (''path'', JStr executablePath)])) (\<lambda>_.
            ret executablePath))
      in
      case config_localChromiumPath env of
        None \<Rightarrow> fallback
      | Some localPath \<Rightarrow>
          if localPath \<noteq> [] then
            andThen (emit (LoggerLog [(''msg'', JStr ''Using local Chromium''),
                                      (''path'', JStr localPath)])) (\<lambda>_.
            ret localPath)
          else fallback)"

subsection \<open>generatePdf\<close>

text \<open>The launch options of the PDF path: no viewport is given.\<close>

definition pdfLaunchOptions :: "engine \<Rightarrow> string \<Rightarrow> LaunchOptions" where
  "pdfLaunchOptions env path =
     (let chromiumArgs = chromium_args env in
      \<lparr>args = puppeteer_defaultArgs env chromiumArgs True,
       executablePath = path,
       headless = True,
       defaultViewport = None\<rparr>)"

text \<open>The object literal passed to \<open>page.pdf\<close>.\<close>

definition pdfRequest :: "PdfOptions option \<Rightarrow> PdfRequest" where
  "pdfRequest options =
     \<lparr>pdf_format = nullish (optChain options format) A4,
      pdf_landscape = nullish (optChain options landscape) False,
      pdf_printBackground = nullish (optChain options printBackground) True,
      pdf_margin = nullish (optChain options margin)
                     \<lparr>margin_top = Some ''10mm'',
                      margin_right = Some ''10mm'',
                      margin_bottom = Some ''10mm'',
                      margin_left = Some ''10mm''\<rparr>,
      pdf_tagged = nullish (optChain options tagged) True,
      pdf_preferCSSPageSize = nullish (optChain options preferCSSPageSize) True\<rparr>"

text \<open>
  The body of the \<open>try\<close> block of \<open>generatePdf\<close>. \<open>Buffer.from\<close> copies the bytes
  of the export, so the block returns them as they are.
\<close>

definition pdfTryBlock :: "engine \<Rightarrow> string \<Rightarrow> PdfOptions option \<Rightarrow> (event, bytes) eff" where
  "pdfTryBlock env html options =
     andThen (await NewPage (browser_newPage env)) (\<lambda>page.
     andThen (await (SetContent html [Networkidle0])
                    (page_setContent env html [Networkidle0])) (\<lambda>_.
     andThen (await (PagePdf (pdfRequest options)) (page_pdf env (pdfRequest options))) (\<lambda>pdf.
     ret pdf)))"

definition generatePdf :: "engine \<Rightarrow> string \<Rightarrow> PdfOptions option \<Rightarrow> (event, bytes) eff" where
  "generatePdf env html options =
     andThen (getExecutablePath env) (\<lambda>path.
     andThen (emit (SetGraphicsMode False)) (\<lambda>_.
     andThen (await (Launch (pdfLaunchOptions env path))
                    (puppeteer_launch env (pdfLaunchOptions env path))) (\<lambda>browser.
     tryFinally
       (pdfTryBlock env html options)
       (await Close (browser_close env)))))"

subsection \<open>generateImage\<close>

text \<open>The launch options of the image path: the viewport is part of the launch.\<close>

definition imageLaunchOptions :: "engine \<Rightarrow> string \<Rightarrow> ImageOptions option \<Rightarrow> LaunchOptions" where
  "imageLaunchOptions env path options =
     (let chromiumArgs = chromium_args env in
      \<lparr>args = puppeteer_defaultArgs env chromiumArgs True,
       executablePath = path,
       headless = True,
       defaultViewport = Some
         \<lparr>vp_deviceScaleFactor = nullish (optChain options deviceScaleFactor) 1,
          vp_hasTouch = nullish (optChain options hasTouch) False,
          vp_isLandscape = nullish (optChain options isLandscape) False,
          vp_isMobile = nullish (optChain options isMobile) True,
          vp_width = nullish (optChain options width) 320,
          vp_height = nullish (optChain options height) 1080\<rparr>\<rparr>)"

text \<open>
  The construction of \<open>screenshotOptions\<close>: the literal, the quality gate, then the choice
  between the caller's clip, the auto-fit clip and the full page, each with its log line.
  \<open>if (options?.clip)\<close> holds exactly when a clip object was given.
\<close>

definition screenshotOptions :: "ImageOptions option \<Rightarrow> ContentDimensions \<Rightarrow> (event, ScreenshotOptions) eff" where
  "screenshotOptions options contentDimensions =
     (let literal = \<lparr>ss_type = nullish (optChain options type) Png,
                      ss_omitBackground = nullish (optChain options omitBackground) False,
                      ss_quality = None,
                      ss_clip = None,
                      ss_fullPage = None\<rparr>;
          gated = (if ss_type literal \<in> set [Jpeg, Webp]
                   then literal\<lparr>ss_quality := Some (nullish (optChain options quality) 80)\<rparr>
                   else literal)
      in
      case optChain options clip of
        Some customClip \<Rightarrow>
          andThen (emit (LogCustomClip customClip)) (\<lambda>_.
          ret (gated\<lparr>ss_clip := Some customClip\<rparr>))
      | None \<Rightarrow>
          if content_width contentDimensions > 0 \<and> content_height contentDimensions > 0 then
            let autoClip = \<lparr>clip_x = 0, clip_y = 0,
                            clip_width = content_width contentDimensions,
                            clip_height = content_height contentDimensions\<rparr>
            in andThen (emit (LogAutoFitClip autoClip)) (\<lambda>_.
               ret (gated\<lparr>ss_clip := Some autoClip\<rparr>))
          else
            andThen (emit LogFullPage) (\<lambda>_.
            ret (gated\<lparr>ss_fullPage := Some (nullish (optChain options fullPage) True)\<rparr>)))"

text \<open>The body of the \<open>try\<close> block of \<open>generateImage\<close>.\<close>

definition imageTryBlock :: "engine \<Rightarrow> string \<Rightarrow> ImageOptions option \<Rightarrow> (event, bytes) eff" where
  "imageTryBlock env html options =
     andThen (await NewPage (browser_newPage env)) (\<lambda>page.
     andThen (await (SetContent html [Load, Networkidle2])
                    (page_setContent env html [Load, Networkidle2])) (\<lambda>_.
     andThen (await Evaluate (page_evaluate env)) (\<lambda>contentDimensions.
     andThen (screenshotOptions options contentDimensions) (\<lambda>request.
     andThen (await (Screenshot request) (page_screenshot env request)) (\<lambda>screenshot.
     ret screenshot)))))"

definition generateImage :: "engine \<Rightarrow> string \<Rightarrow> ImageOptions option \<Rightarrow> (event, bytes) eff" where
  "generateImage env html options =
     andThen (getExecutablePath env) (\<lambda>path.
     andThen (emit (SetGraphicsMode False)) (\<lambda>_.
     andThen (await (Launch (imageLaunchOptions env path options))
                    (puppeteer_launch env (imageLaunchOptions env path options))) (\<lambda>browser.
     tryFinally
       (imageTryBlock env html options)
       (await Close (browser_close env)))))"

section \<open>Storage service (s3.service.ts)\<close>

record PutObjectCommand =
  Bucket :: string
  Key :: string
  Body :: bytes
  ContentType :: string

text \<open>
  The service holds the bucket name read at construction and its client; \<open>s3_send\<close> is
  the outcome of \<open>client.send\<close> on a command.
\<close>

record S3Service =
  bucket :: string
  s3_send :: "PutObjectCommand \<Rightarrow> error + unit"

datatype s3_event =
    S3Log js_object
  | S3Send PutObjectCommand

definition upload :: "S3Service \<Rightarrow> string \<Rightarrow> bytes \<Rightarrow> documentType \<Rightarrow> (s3_event, string) eff" where
  "upload svc key buffer docType =
     (let contentType = (if docType = Pdf then ''application/pdf'' else ''image/png'') in
      andThen (emit (S3Log [(''msg'', JStr ''Uploading to S3''),
                            (''bucket'', JStr (bucket svc)),
                            (''key'', JStr key),
                            (''bytes'', JNum (real (length buffer))),
                            (''contentType'', JStr contentType)])) (\<lambda>_.
      let command = \<lparr>Bucket = bucket svc, Key = key, Body = buffer, ContentType = contentType\<rparr> in
      andThen (await (S3Send command) (s3_send svc command)) (\<lambda>_.
      let url = ''https://'' @ bucket svc @ ''.s3.amazonaws.com/'' @ key in
      andThen (emit (S3Log [(''msg'', JStr ''S3 upload successful''),
                            (''bucket'', JStr (bucket svc)),
                            (''key'', JStr key),
                            (''url'', JStr url)])) (\<lambda>_.
      ret url))))"

section \<open>Job processor (pdf-generation.processor.ts)\<close>

record Job =
  job_id :: string
  queueName :: string
  data :: GenerateDocumentJobData

text \<open>
  The processor is constructed from the two services it calls; each is the outcome of the
  call as a function of its arguments. \<open>date_toISOString\<close> is what
  \<open>new Date().toISOString()\<close> gives when the result is built.
\<close>

record Processor =
  puppeteer_generatePdf :: "string \<Rightarrow> PdfOptions option \<Rightarrow> error + bytes"
  puppeteer_generateImage :: "string \<Rightarrow> ImageOptions option \<Rightarrow> error + bytes"
  s3_upload :: "string \<Rightarrow> bytes \<Rightarrow> documentType \<Rightarrow> error + string"
  date_toISOString :: string

datatype proc_event =
    ProcLog js_object
  | ProcError js_object
  | CallGeneratePdf string "PdfOptions option"
  | CallGenerateImage string "ImageOptions option"
  | CallUpload string bytes documentType

definition throw :: "error \<Rightarrow> ('e, 'a) eff" where
  "throw e = ([], Inl e)"

definition documentType_string :: "documentType \<Rightarrow> string" where
  "documentType_string d = (case d of Pdf \<Rightarrow> ''pdf'' | Image \<Rightarrow> ''image'')"

text \<open>
  \<open>...(c && obj)\<close> inside an object literal: spreading \<open>false\<close> adds no property,
  spreading the object adds its properties.
\<close>

definition spreadAnd :: "bool \<Rightarrow> js_object \<Rightarrow> js_object" where
  "spreadAnd c obj = (if c then obj else [])"

text \<open>\<open>k in obj\<close>.\<close>

definition hasKey :: "js_object \<Rightarrow> string \<Rightarrow> bool" where
  "hasKey obj k = (k \<in> set (map fst obj))"

text \<open>Step 1 of \<open>process\<close>: the render call chosen by \<open>documentType\<close>.\<close>

definition renderStep :: "Processor \<Rightarrow> Job \<Rightarrow> (proc_event, bytes) eff" where
  "renderStep p job =
     (if documentType (data job) = Pdf
      then await (CallGeneratePdf (htmlContent (data job)) (pdfOptions (data job)))
                 (puppeteer_generatePdf p (htmlContent (data job)) (pdfOptions (data job)))
      else await (CallGenerateImage (htmlContent (data job)) (imageOptions (data job)))
                 (puppeteer_generateImage p (htmlContent (data job)) (imageOptions (data job))))"

text \<open>Step 3 of \<open>process\<close>: the object literal of the job result.\<close>

definition jobResult :: "Job \<Rightarrow> string \<Rightarrow> string \<Rightarrow> js_object" where
  "jobResult job url completedAt =
     [(''url'', JStr url),
      (''userId'', JStr (userId (data job))),
      (''completedAt'', JStr completedAt)]
     @ spreadAnd (metaData (data job) \<noteq> JUndefined) [(''metaData'', metaData (data job))]"

definition process :: "Processor \<Rightarrow> Job \<Rightarrow> (proc_event, js_object) eff" where
  "process p job =
     andThen (emit (ProcLog [(''msg'', JStr ''Job started''),
                             (''jobId'', JStr (job_id job)),
                             (''queue'', JStr (queueName job)),
                             (''documentType'', JStr (documentType_string (documentType (data job)))),
                             (''s3Key'', JStr (s3Key (data job))),
                             (''userId'', JStr (userId (data job)))])) (\<lambda>_.
     tryCatch
       (andThen (renderStep p job) (\<lambda>buffer.
        andThen (emit (ProcLog [(''msg'', JStr ''Document generated''),
                                (''jobId'', JStr (job_id job)),
                                (''bytes'', JNum (real (length buffer)))])) (\<lambda>_.
        andThen (await (CallUpload (s3Key (data job)) buffer (documentType (data job)))
                       (s3_upload p (s3Key (data job)) buffer (documentType (data job)))) (\<lambda>url.
        andThen (emit (ProcLog [(''msg'', JStr ''Uploaded to S3''),
                                (''jobId'', JStr (job_id job)),
                                (''s3Key'', JStr (s3Key (data job))),
                                (''url'', JStr url)])) (\<lambda>_.
        let result = jobResult job url (date_toISOString p) in
        andThen (emit (ProcLog [(''msg'', JStr ''Job completed''),
                                (''jobId'', JStr (job_id job)),
                                (''url'', JStr url)])) (\<lambda>_.
        ret result))))))
       (\<lambda>err.
        andThen (emit (ProcError [(''msg'', JStr ''Job failed''),
                                  (''jobId'', JStr (job_id job)),
                                  (''queue'', JStr (queueName job)),
                                  (''error'', JStr (message err)),
                                  (''stack'', JStr (stack err))])) (\<lambda>_.
        throw err)))"

text \<open>The processor as the application wires it: the two services of this repository.\<close>

definition worker :: "engine \<Rightarrow> S3Service \<Rightarrow> string \<Rightarrow> Processor" where
  "worker env svc now =
     \<lparr>puppeteer_generatePdf = (\<lambda>html options. snd (generatePdf env html options)),
      puppeteer_generateImage = (\<lambda>html options. snd (generateImage env html options)),
      s3_upload = (\<lambda>key buffer docType. snd (upload svc key buffer docType)),
      date_toISOString = now\<rparr>"

section \<open>Configuration (app.config.ts)\<close>

text \<open>
  The configuration object, without \<open>redisPort\<close> (the one field read through
  \<open>Number.parseInt\<close>). \<open>process.env\<close> is a map from names to strings.
\<close>

record AppConfig =
  redisHost :: string
  redisPassword :: "string option"
  redisTls :: bool
  s3BucketName :: string
  awsRegion :: string
  pdfGenerationQueue :: string
  localChromiumPath :: "string option"
  nodeEnv :: string

text \<open>\<open>v || undefined\<close> on an optional string: the empty string becomes \<open>undefined\<close>.\<close>

definition orUndefined :: "string option \<Rightarrow> string option" where
  "orUndefined v = (case v of None \<Rightarrow> None | Some s \<Rightarrow> if s \<noteq> [] then Some s else None)"

text \<open>
  The validation loop: the first required variable that is unset or empty raises, with
  this message.
\<close>

fun missingRequired :: "(string \<rightharpoonup> string) \<Rightarrow> string list \<Rightarrow> string option" where
  "missingRequired env [] = None"
| "missingRequired env (key # keys) =
     (if orUndefined (env key) = None
      then Some (''Missing required environment variable: '' @ key)
      else missingRequired env keys)"

definition appConfig :: "(string \<rightharpoonup> string) \<Rightarrow> string + AppConfig" where
  "appConfig env =
     (let required = [''REDIS_HOST'', ''S3_BUCKET_NAME'', ''AWS_REGION''] in
      case missingRequired env required of
        Some msg \<Rightarrow> Inl msg
      | None \<Rightarrow>
          Inr \<lparr>redisHost = nullish (env ''REDIS_HOST'') ''localhost'',
               redisPassword = orUndefined (env ''REDIS_PASSWORD''),
               redisTls = (env ''REDIS_TLS'' = Some ''true''),
               s3BucketName = nullish (env ''S3_BUCKET_NAME'') ''trino-doc-worker-bucket'',
               awsRegion = nullish (env ''AWS_REGION'') ''us-east-1'',
               pdfGenerationQueue = nullish (env ''PDF_GENERATION_QUEUE'') ''pdf-generation'',
               localChromiumPath = orUndefined (env ''LOCAL_CHROMIUM_PATH''),
               nodeEnv = nullish (env ''NODE_ENV'') ''production''\<rparr>)"

section \<open>Concrete collaborators\<close>

text \<open>
  A browser whose every operation succeeds, in the manner of the mocks of
  puppeteer.service.spec.ts: no local path is configured, the chromium package gives
  \<open>/usr/bin/chromium-test\<close>, the probe measures 800 by 600.
\<close>

definition mock_engine :: engine where
  "mock_engine =
     \<lparr>config_localChromiumPath = None,
      chromium_executablePath = Inr ''/usr/bin/chromium-test'',
      chromium_args = [''--no-sandbox''],
      puppeteer_defaultArgs = (\<lambda>as h. as),
      puppeteer_launch = (\<lambda>_. Inr ()),
      browser_newPage = Inr (),
      page_setContent = (\<lambda>_ _. Inr ()),
      page_pdf = (\<lambda>_. Inr [37, 80, 68, 70]),
      page_evaluate = Inr \<lparr>content_width = 800, content_height = 600\<rparr>,
      page_screenshot = (\<lambda>_. Inr [137, 80, 78, 71]),
      browser_close = Inr ()\<rparr>"

definition render_failed :: error where
  "render_failed = Error ''render failed'' ''Error: render failed''"

definition close_failed :: error where
  "close_failed = Error ''close failed'' ''Error: close failed''"

text \<open>The bucket of s3.service.spec.ts, with a client that accepts every command.\<close>

definition mock_s3 :: S3Service where
  "mock_s3 = \<lparr>bucket = ''test-bucket'', s3_send = (\<lambda>_. Inr ())\<rparr>"

text \<open>The job of pdf-generation.processor.spec.ts.\<close>

definition mock_job :: Job where
  "mock_job =
     \<lparr>job_id = ''test-job-id-123'',
      queueName = ''pdf-generation'',
      data = \<lparr>userId = ''user-abc'',
              documentType = Pdf,
              htmlContent = ''<html><body>Ola</body></html>'',
              s3Key = ''docs/user-abc/file.pdf'',
              pdfOptions = None,
              imageOptions = None,
              metaData = JUndefined\<rparr>\<rparr>"

text \<open>The required variables of the configuration tests, with an empty chromium path.\<close>

definition mock_env :: "string \<rightharpoonup> string" where
  "mock_env =
     [''REDIS_HOST'' \<mapsto> ''localhost'',
      ''S3_BUCKET_NAME'' \<mapsto> ''test-bucket'',
      ''AWS_REGION'' \<mapsto> ''us-east-1'',
      ''LOCAL_CHROMIUM_PATH'' \<mapsto> []]"

text \<open>Options in which a single field is given.\<close>

definition no_pdfOptions :: PdfOptions where
  "no_pdfOptions =
     \<lparr>format = None, landscape = None, printBackground = None, margin = None,
      tagged = None, preferCSSPageSize = None\<rparr>"

definition no_imageOptions :: ImageOptions where
  "no_imageOptions =
     \<lparr>type = None, quality = None, fullPage = None, deviceScaleFactor = None,
      hasTouch = None, isLandscape = None, isMobile = None, width = None, height = None,
      clip = None, omitBackground = None\<rparr>"

definition only_margin_top :: PdfOptions where
  "only_margin_top =
     no_pdfOptions\<lparr>margin := Some \<lparr>margin_top = Some ''5mm'', margin_right = None,
                                     margin_bottom = None, margin_left = None\<rparr>\<rparr>"

section \<open>Traces and outcomes of the effect combinators\<close>

lemma fst_await [simp]: "fst (await e r) = [e]"
  by (simp add: await_def)

lemma snd_await [simp]: "snd (await e r) = r"
  by (simp add: await_def)

lemma fst_emit [simp]: "fst (emit e) = [e]"
  by (simp add: emit_def)

lemma snd_emit [simp]: "snd (emit e) = Inr ()"
  by (simp add: emit_def)

lemma fst_ret [simp]: "fst (ret v) = []"
  by (simp add: ret_def)

lemma snd_ret [simp]: "snd (ret v) = Inr v"
  by (simp add: ret_def)

lemma fst_throw [simp]: "fst (throw e) = []"
  by (simp add: throw_def)

lemma snd_throw [simp]: "snd (throw e) = Inl e"
  by (simp add: throw_def)

lemma fst_andThen:
  "fst (andThen m f) = (case snd m of Inl e \<Rightarrow> fst m | Inr v \<Rightarrow> fst m @ fst (f v))"
  by (cases m) (simp add: andThen_def split: sum.splits prod.splits)

lemma snd_andThen:
  "snd (andThen m f) = (case snd m of Inl e \<Rightarrow> Inl e | Inr v \<Rightarrow> snd (f v))"
  by (cases m) (simp add: andThen_def split: sum.splits prod.splits)

lemma fst_tryFinally: "fst (tryFinally body fin) = fst body @ fst fin"
  by (cases body; cases fin) (simp add: tryFinally_def split: sum.splits)

lemma snd_tryFinally:
  "snd (tryFinally body fin) = (case snd fin of Inl e \<Rightarrow> Inl e | Inr _ \<Rightarrow> snd body)"
  by (cases body; cases fin) (simp add: tryFinally_def split: sum.splits)

lemma fst_tryCatch:
  "fst (tryCatch body h) =
     (case snd body of Inl e \<Rightarrow> fst body @ fst (h e) | Inr v \<Rightarrow> fst body)"
  by (cases body) (simp add: tryCatch_def split: sum.splits prod.splits)

lemma snd_tryCatch:
  "snd (tryCatch body h) = (case snd body of Inl e \<Rightarrow> snd (h e) | Inr v \<Rightarrow> Inr v)"
  by (cases body) (simp add: tryCatch_def split: sum.splits prod.splits)

lemmas eff_simps =
  fst_andThen snd_andThen fst_tryFinally snd_tryFinally fst_tryCatch snd_tryCatch

section \<open>The shape of a render call\<close>

lemma getExecutablePath_trace:
  "fst (getExecutablePath env) =
     (let fallback =
        (case chromium_executablePath env of
           Inl e \<Rightarrow> [ChromiumExecutablePath]
         | Inr q \<Rightarrow>
             [ChromiumExecutablePath,
              LoggerLog [(''msg'', JStr ''Using @sparticuz/chromium Chromium''),
                         (''path'', JStr q)]])
      in
      case config_localChromiumPath env of
        Some p \<Rightarrow>
          if p \<noteq> []
          then [LoggerLog [(''msg'', JStr ''Using local Chromium''), (''path'', JStr p)]]
          else fallback
      | None \<Rightarrow> fallback)"
  by (simp add: getExecutablePath_def eff_simps Let_def split: sum.splits option.splits)

lemma getExecutablePath_outcome:
  "snd (getExecutablePath env) =
     (case config_localChromiumPath env of
        Some p \<Rightarrow> if p \<noteq> [] then Inr p else chromium_executablePath env
      | None \<Rightarrow> chromium_executablePath env)"
  by (simp add: getExecutablePath_def eff_simps Let_def split: sum.splits option.splits)

lemma pdfTryBlock_trace:
  "fst (pdfTryBlock env html options) =
     NewPage #
     (case browser_newPage env of
        Inl e \<Rightarrow> []
      | Inr _ \<Rightarrow>
          SetContent html [Networkidle0] #
          (case page_setContent env html [Networkidle0] of
             Inl e \<Rightarrow> []
           | Inr _ \<Rightarrow> [PagePdf (pdfRequest options)]))"
  by (simp add: pdfTryBlock_def eff_simps split: sum.splits)

lemma pdfTryBlock_outcome:
  "snd (pdfTryBlock env html options) =
     (case browser_newPage env of
        Inl e \<Rightarrow> Inl e
      | Inr _ \<Rightarrow>
          (case page_setContent env html [Networkidle0] of
             Inl e \<Rightarrow> Inl e
           | Inr _ \<Rightarrow> page_pdf env (pdfRequest options)))"
  by (simp add: pdfTryBlock_def eff_simps split: sum.splits)

lemma generatePdf_trace:
  "fst (generatePdf env html options) =
     (case snd (getExecutablePath env) of
        Inl e \<Rightarrow> fst (getExecutablePath env)
      | Inr path \<Rightarrow>
          fst (getExecutablePath env) @
          [SetGraphicsMode False, Launch (pdfLaunchOptions env path)] @
          (case puppeteer_launch env (pdfLaunchOptions env path) of
             Inl e \<Rightarrow> []
           | Inr _ \<Rightarrow> fst (pdfTryBlock env html options) @ [Close]))"
  by (simp add: generatePdf_def eff_simps split: sum.splits)

lemma generatePdf_outcome:
  "snd (generatePdf env html options) =
     (case snd (getExecutablePath env) of
        Inl e \<Rightarrow> Inl e
      | Inr path \<Rightarrow>
          (case puppeteer_launch env (pdfLaunchOptions env path) of
             Inl e \<Rightarrow> Inl e
           | Inr _ \<Rightarrow>
               (case browser_close env of
                  Inl c \<Rightarrow> Inl c
                | Inr _ \<Rightarrow> snd (pdfTryBlock env html options))))"
  by (simp add: generatePdf_def eff_simps split: sum.splits)

lemma screenshotOptions_trace:
  "fst (screenshotOptions options d) =
     (case optChain options clip of
        Some c \<Rightarrow> [LogCustomClip c]
      | None \<Rightarrow>
          if content_width d > 0 \<and> content_height d > 0
          then [LogAutoFitClip \<lparr>clip_x = 0, clip_y = 0, clip_width = content_width d,
                                 clip_height = content_height d\<rparr>]
          else [LogFullPage])"
  by (simp add: screenshotOptions_def eff_simps Let_def split: option.splits)

lemma screenshotOptions_total: "\<exists>request. snd (screenshotOptions options d) = Inr request"
  by (simp add: screenshotOptions_def eff_simps Let_def split: option.splits)

lemma imageTryBlock_trace:
  "fst (imageTryBlock env html options) =
     NewPage #
     (case browser_newPage env of
        Inl e \<Rightarrow> []
      | Inr _ \<Rightarrow>
          SetContent html [Load, Networkidle2] #
          (case page_setContent env html [Load, Networkidle2] of
             Inl e \<Rightarrow> []
           | Inr _ \<Rightarrow>
               Evaluate #
               (case page_evaluate env of
                  Inl e \<Rightarrow> []
                | Inr d \<Rightarrow>
                    fst (screenshotOptions options d) @
                    (case snd (screenshotOptions options d) of
                       Inl e \<Rightarrow> []
                     | Inr request \<Rightarrow> [Screenshot request]))))"
  by (simp add: imageTryBlock_def eff_simps split: sum.splits)

lemma generateImage_trace:
  "fst (generateImage env html options) =
     (case snd (getExecutablePath env) of
        Inl e \<Rightarrow> fst (getExecutablePath env)
      | Inr path \<Rightarrow>
          fst (getExecutablePath env) @
          [SetGraphicsMode False, Launch (imageLaunchOptions env path options)] @
          (case puppeteer_launch env (imageLaunchOptions env path options) of
             Inl e \<Rightarrow> []
           | Inr _ \<Rightarrow> fst (imageTryBlock env html options) @ [Close]))"
  by (simp add: generateImage_def eff_simps split: sum.splits)

lemma generateImage_outcome:
  "snd (generateImage env html options) =
     (case snd (getExecutablePath env) of
        Inl e \<Rightarrow> Inl e
      | Inr path \<Rightarrow>
          (case puppeteer_launch env (imageLaunchOptions env path options) of
             Inl e \<Rightarrow> Inl e
           | Inr _ \<Rightarrow>
               (case browser_close env of
                  Inl c \<Rightarrow> Inl c
                | Inr _ \<Rightarrow> snd (imageTryBlock env html options))))"
  by (simp add: generateImage_def eff_simps split: sum.splits)

text \<open>Path resolution only consults the chromium package and logs.\<close>

lemma getExecutablePath_events:
  "set (fst (getExecutablePath env)) \<subseteq> insert ChromiumExecutablePath (range LoggerLog)"
  by (auto simp: getExecutablePath_trace Let_def split: sum.splits option.splits if_splits)

lemma screenshotOptions_events:
  "set (fst (screenshotOptions options d)) \<subseteq>
     insert LogFullPage (range LogCustomClip \<union> range LogAutoFitClip)"
  by (auto simp: screenshotOptions_trace split: option.splits if_splits)

text \<open>Every screenshot request of a render is the one built from the probe's answer.\<close>

lemma imageTryBlock_screenshot:
  assumes "Screenshot request \<in> set (fst (imageTryBlock env html options))"
  shows "\<exists>d. page_evaluate env = Inr d \<and> snd (screenshotOptions options d) = Inr request"
proof (cases "page_evaluate env")
  case (Inl e)
  with assms show ?thesis
    by (auto simp: imageTryBlock_trace split: sum.splits)
next
  case (Inr d)
  have "Screenshot request \<notin> set (fst (screenshotOptions options d))"
    using screenshotOptions_events [of options d] by auto
  with assms Inr show ?thesis
    by (auto simp: imageTryBlock_trace split: sum.splits)
qed

lemma generateImage_screenshot:
  assumes "Screenshot request \<in> set (fst (generateImage env html options))"
  shows "\<exists>d. page_evaluate env = Inr d \<and> snd (screenshotOptions options d) = Inr request"
proof -
  have "Screenshot request \<notin> set (fst (getExecutablePath env))"
    using getExecutablePath_events [of env] by auto
  with assms have "Screenshot request \<in> set (fst (imageTryBlock env html options))"
    by (auto simp: generateImage_trace split: sum.splits)
  then show ?thesis by (rule imageTryBlock_screenshot)
qed

text \<open>The mock browser, field by field, and its path resolution.\<close>

lemma mock_engine_simps:
  "config_localChromiumPath mock_engine = None"
  "chromium_executablePath mock_engine = Inr ''/usr/bin/chromium-test''"
  "chromium_args mock_engine = [''--no-sandbox'']"
  "puppeteer_defaultArgs mock_engine as h = as"
  "puppeteer_launch mock_engine lo = Inr ()"
  "browser_newPage mock_engine = Inr ()"
  "page_setContent mock_engine html w = Inr ()"
  "page_pdf mock_engine pr = Inr [37, 80, 68, 70]"
  "page_evaluate mock_engine = Inr \<lparr>content_width = 800, content_height = 600\<rparr>"
  "page_screenshot mock_engine sr = Inr [137, 80, 78, 71]"
  "browser_close mock_engine = Inr ()"
  by (simp_all add: mock_engine_def)

lemma mock_getExecutablePath:
  "getExecutablePath mock_engine =
     ([ChromiumExecutablePath,
       LoggerLog [(''msg'', JStr ''Using @sparticuz/chromium Chromium''),
                  (''path'', JStr ''/usr/bin/chromium-test'')]],
      Inr ''/usr/bin/chromium-test'')"
  by (simp add: prod_eq_iff getExecutablePath_trace getExecutablePath_outcome mock_engine_simps)

text \<open>The requests of a render whose steps succeed.\<close>

lemma getExecutablePath_makes_no_request:
  "[r. Screenshot r \<leftarrow> fst (getExecutablePath env)] = []"
  "[r. PagePdf r \<leftarrow> fst (getExecutablePath env)] = []"
  "[l. Launch l \<leftarrow> fst (getExecutablePath env)] = []"
  by (simp_all add: getExecutablePath_trace Let_def split: option.splits sum.splits)

lemma screenshotOptions_makes_no_request:
  "[r. Screenshot r \<leftarrow> fst (screenshotOptions options d)] = []"
  "[l. Launch l \<leftarrow> fst (screenshotOptions options d)] = []"
  by (simp_all add: screenshotOptions_trace split: option.splits)

lemma generateImage_screenshots:
  assumes "snd (getExecutablePath env) = Inr path"
    and "puppeteer_launch env (imageLaunchOptions env path options) = Inr ()"
    and "browser_newPage env = Inr ()"
    and "page_setContent env html [Load, Networkidle2] = Inr ()"
    and "page_evaluate env = Inr d"
  shows "\<exists>request. snd (screenshotOptions options d) = Inr request
           \<and> [r. Screenshot r \<leftarrow> fst (generateImage env html options)] = [request]"
proof -
  from screenshotOptions_total obtain request
    where request: "snd (screenshotOptions options d) = Inr request"
    by blast
  have "[r. Screenshot r \<leftarrow> fst (imageTryBlock env html options)] = [request]"
    by (simp add: imageTryBlock_trace assms request screenshotOptions_makes_no_request)
  then have "[r. Screenshot r \<leftarrow> fst (generateImage env html options)] = [request]"
    by (simp add: generateImage_trace assms getExecutablePath_makes_no_request)
  with request show ?thesis by blast
qed

lemma mock_image_steps:
  "snd (getExecutablePath (mock_engine\<lparr>page_evaluate := r\<rparr>)) = Inr ''/usr/bin/chromium-test''"
  "puppeteer_launch (mock_engine\<lparr>page_evaluate := r\<rparr>) lo = Inr ()"
  "browser_newPage (mock_engine\<lparr>page_evaluate := r\<rparr>) = Inr ()"
  "page_setContent (mock_engine\<lparr>page_evaluate := r\<rparr>) html w = Inr ()"
  "page_evaluate (mock_engine\<lparr>page_evaluate := r\<rparr>) = r"
  "snd (getExecutablePath mock_engine) = Inr ''/usr/bin/chromium-test''"
  by (simp_all add: getExecutablePath_outcome mock_engine_simps)

section \<open>Screenshot requests\<close>

lemma screenshotOptions_clip:
  assumes "snd (screenshotOptions options d) = Inr request"
  shows "case optChain options clip of
           Some c \<Rightarrow> ss_clip request = Some c \<and> ss_fullPage request = None
         | None \<Rightarrow>
             if content_width d > 0 \<and> content_height d > 0
             then ss_clip request = Some \<lparr>clip_x = 0, clip_y = 0, clip_width = content_width d,
                                          clip_height = content_height d\<rparr>
                  \<and> ss_fullPage request = None
             else ss_fullPage request =
                    Some (case optChain options fullPage of Some b \<Rightarrow> b | None \<Rightarrow> True)
                  \<and> ss_clip request = None"
  using assms
  by (auto simp: screenshotOptions_def snd_andThen Let_def nullish_def
      split: option.splits if_splits)

lemma screenshotOptions_quality:
  assumes "snd (screenshotOptions options d) = Inr request"
  shows "ss_type request = (case optChain options type of Some t \<Rightarrow> t | None \<Rightarrow> Png)"
    and "ss_quality request =
           (if ss_type request = Png then None
            else Some (case optChain options quality of Some q \<Rightarrow> q | None \<Rightarrow> 80))"
proof -
  show "ss_type request = (case optChain options type of Some t \<Rightarrow> t | None \<Rightarrow> Png)"
    using assms
    by (auto simp: screenshotOptions_def snd_andThen Let_def nullish_def
        split: option.splits if_splits)
  show "ss_quality request =
           (if ss_type request = Png then None
            else Some (case optChain options quality of Some q \<Rightarrow> q | None \<Rightarrow> 80))"
  proof (cases "nullish (optChain options type) Png")
    case Png
    with assms show ?thesis
      by (auto simp: screenshotOptions_def snd_andThen Let_def split: option.splits if_splits)
  next
    case Jpeg
    with assms show ?thesis
      by (auto simp: screenshotOptions_def snd_andThen Let_def nullish_def
          split: option.splits if_splits)
  next
    case Webp
    with assms show ?thesis
      by (auto simp: screenshotOptions_def snd_andThen Let_def nullish_def
          split: option.splits if_splits)
  qed
qed

text \<open>
  Claim C1. Whenever the executable path resolves and the launch, the new page, the
  loading of the content and the content probe succeed, with \<open>d\<close> the probe's answer,
  \<open>generateImage\<close> sends exactly one screenshot request, built as follows: when the
  caller gave a clip, the request carries that clip and no \<open>fullPage\<close> key; otherwise,
  when the probed width and height are both positive, it carries the clip
  \<open>{x: 0, y: 0, width, height}\<close> of the probe and no \<open>fullPage\<close> key; otherwise it carries
  \<open>fullPage\<close>, equal to the caller's value if given and to true if not, and no \<open>clip\<close>
  key. In every case exactly one of the two keys is set. No call of \<open>generateImage\<close>
  sends a screenshot request built in any other way.
\<close>

theorem generateImage_clip_strategy:
  "(snd (getExecutablePath env) = Inr path
    \<and> puppeteer_launch env (imageLaunchOptions env path options) = Inr ()
    \<and> browser_newPage env = Inr ()
    \<and> page_setContent env html [Load, Networkidle2] = Inr ()
    \<and> page_evaluate env = Inr d \<longrightarrow>
      (\<exists>request.
         [r. Screenshot r \<leftarrow> fst (generateImage env html options)] = [request]
         \<and> (case optChain options clip of
              Some c \<Rightarrow> ss_clip request = Some c \<and> ss_fullPage request = None
            | None \<Rightarrow>
                if content_width d > 0 \<and> content_height d > 0
                then ss_clip request = Some \<lparr>clip_x = 0, clip_y = 0, clip_width = content_width d,
                                             clip_height = content_height d\<rparr>
                     \<and> ss_fullPage request = None
                else ss_fullPage request =
                       Some (case optChain options fullPage of Some b \<Rightarrow> b | None \<Rightarrow> True)
                     \<and> ss_clip request = None)
         \<and> ((ss_clip request = None) \<noteq> (ss_fullPage request = None))))
   \<and> (\<forall>request. Screenshot request \<in> set (fst (generateImage env html options)) \<longrightarrow>
        (\<exists>d. page_evaluate env = Inr d \<and>
           (case optChain options clip of
              Some c \<Rightarrow> ss_clip request = Some c \<and> ss_fullPage request = None
            | None \<Rightarrow>
                if content_width d > 0 \<and> content_height d > 0
                then ss_clip request = Some \<lparr>clip_x = 0, clip_y = 0, clip_width = content_width d,
                                             clip_height = content_height d\<rparr>
                     \<and> ss_fullPage request = None
                else ss_fullPage request =
                       Some (case optChain options fullPage of Some b \<Rightarrow> b | None \<Rightarrow> True)
                     \<and> ss_clip request = None)
           \<and> ((ss_clip request = None) \<noteq> (ss_fullPage request = None))))"
proof (intro conjI impI allI)
  assume "snd (getExecutablePath env) = Inr path
    \<and> puppeteer_launch env (imageLaunchOptions env path options) = Inr ()
    \<and> browser_newPage env = Inr ()
    \<and> page_setContent env html [Load, Networkidle2] = Inr ()
    \<and> page_evaluate env = Inr d"
  then obtain request
    where request: "snd (screenshotOptions options d) = Inr request"
      and sent: "[r. Screenshot r \<leftarrow> fst (generateImage env html options)] = [request]"
    using generateImage_screenshots [of env path options html d] by blast
  from screenshotOptions_clip [OF request] sent
  show "\<exists>request.
         [r. Screenshot r \<leftarrow> fst (generateImage env html options)] = [request]
         \<and> (case optChain options clip of
              Some c \<Rightarrow> ss_clip request = Some c \<and> ss_fullPage request = None
            | None \<Rightarrow>
                if content_width d > 0 \<and> content_height d > 0
                then ss_clip request = Some \<lparr>clip_x = 0, clip_y = 0, clip_width = content_width d,
                                             clip_height = content_height d\<rparr>
                     \<and> ss_fullPage request = None
                else ss_fullPage request =
                       Some (case optChain options fullPage of Some b \<Rightarrow> b | None \<Rightarrow> True)
                     \<and> ss_clip request = None)
         \<and> ((ss_clip request = None) \<noteq> (ss_fullPage request = None))"
    by (intro exI [of _ request]) (auto split: option.splits if_splits)
next
  fix request
  assume "Screenshot request \<in> set (fst (generateImage env html options))"
  from generateImage_screenshot [OF this] obtain d'
    where d': "page_evaluate env = Inr d'"
      and request: "snd (screenshotOptions options d') = Inr request"
    by blast
  from screenshotOptions_clip [OF request] d'
  show "\<exists>d. page_evaluate env = Inr d \<and>
           (case optChain options clip of
              Some c \<Rightarrow> ss_clip request = Some c \<and> ss_fullPage request = None
            | None \<Rightarrow>
                if content_width d > 0 \<and> content_height d > 0
                then ss_clip request = Some \<lparr>clip_x = 0, clip_y = 0, clip_width = content_width d,
                                             clip_height = content_height d\<rparr>
                     \<and> ss_fullPage request = None
                else ss_fullPage request =
                       Some (case optChain options fullPage of Some b \<Rightarrow> b | None \<Rightarrow> True)
                     \<and> ss_clip request = None)
           \<and> ((ss_clip request = None) \<noteq> (ss_fullPage request = None))"
    by (auto split: option.splits if_splits)
qed

theorem generateImage_clip_strategy_witness:
  "(\<exists>request.
      [r. Screenshot r \<leftarrow> fst (generateImage mock_engine ''<html></html>''
          (Some (no_imageOptions\<lparr>clip := Some \<lparr>clip_x = 10, clip_y = 20, clip_width = 300,
                                                 clip_height = 150\<rparr>\<rparr>)))] = [request]
      \<and> ss_clip request = Some \<lparr>clip_x = 10, clip_y = 20, clip_width = 300, clip_height = 150\<rparr>
      \<and> ss_fullPage request = None)
   \<and> (\<exists>request.
      [r. Screenshot r \<leftarrow> fst (generateImage mock_engine ''<html></html>'' None)] = [request]
      \<and> ss_clip request = Some \<lparr>clip_x = 0, clip_y = 0, clip_width = 800, clip_height = 600\<rparr>
      \<and> ss_fullPage request = None)
   \<and> (\<exists>request.
      [r. Screenshot r \<leftarrow> fst (generateImage
            (mock_engine\<lparr>page_evaluate := Inr \<lparr>content_width = 0, content_height = 0\<rparr>\<rparr>)
            ''<html></html>'' (Some (no_imageOptions\<lparr>fullPage := Some False\<rparr>)))] = [request]
      \<and> ss_fullPage request = Some False
      \<and> ss_clip request = None)
   \<and> (\<exists>request.
      [r. Screenshot r \<leftarrow> fst (generateImage
            (mock_engine\<lparr>page_evaluate := Inr \<lparr>content_width = 0, content_height = 0\<rparr>\<rparr>)
            ''<html></html>'' None)] = [request]
      \<and> ss_fullPage request = Some True
      \<and> ss_clip request = None)"
proof (intro conjI)
  let ?zero = "mock_engine\<lparr>page_evaluate := Inr \<lparr>content_width = 0, content_height = 0\<rparr>\<rparr>"
  let ?custom = "Some (no_imageOptions\<lparr>clip := Some \<lparr>clip_x = 10, clip_y = 20, clip_width = 300,
                                                 clip_height = 150\<rparr>\<rparr>)"
  let ?noFull = "Some (no_imageOptions\<lparr>fullPage := Some False\<rparr>)"
  have steps: "snd (getExecutablePath mock_engine) = Inr ''/usr/bin/chromium-test''
      \<and> puppeteer_launch mock_engine
           (imageLaunchOptions mock_engine ''/usr/bin/chromium-test'' options) = Inr ()
      \<and> browser_newPage mock_engine = Inr ()
      \<and> page_setContent mock_engine ''<html></html>'' [Load, Networkidle2] = Inr ()
      \<and> page_evaluate mock_engine = Inr \<lparr>content_width = 800, content_height = 600\<rparr>"
    for options
    by (simp add: mock_image_steps mock_engine_simps)
  have steps0: "snd (getExecutablePath ?zero) = Inr ''/usr/bin/chromium-test''
      \<and> puppeteer_launch ?zero (imageLaunchOptions ?zero ''/usr/bin/chromium-test'' options) = Inr ()
      \<and> browser_newPage ?zero = Inr ()
      \<and> page_setContent ?zero ''<html></html>'' [Load, Networkidle2] = Inr ()
      \<and> page_evaluate ?zero = Inr \<lparr>content_width = 0, content_height = 0\<rparr>"
    for options
    by (simp add: mock_image_steps mock_engine_simps)
  from generateImage_clip_strategy [THEN conjunct1, THEN mp, OF steps [of ?custom]]
  obtain request where
    "[r. Screenshot r \<leftarrow> fst (generateImage mock_engine ''<html></html>'' ?custom)] = [request]"
    "ss_clip request = Some \<lparr>clip_x = 10, clip_y = 20, clip_width = 300, clip_height = 150\<rparr>
     \<and> ss_fullPage request = None"
    by (auto simp: optChain_def no_imageOptions_def)
  then show "\<exists>request.
      [r. Screenshot r \<leftarrow> fst (generateImage mock_engine ''<html></html>'' ?custom)] = [request]
      \<and> ss_clip request = Some \<lparr>clip_x = 10, clip_y = 20, clip_width = 300, clip_height = 150\<rparr>
      \<and> ss_fullPage request = None"
    by blast
  from generateImage_clip_strategy [THEN conjunct1, THEN mp, OF steps [of None]]
  obtain request where
    "[r. Screenshot r \<leftarrow> fst (generateImage mock_engine ''<html></html>'' None)] = [request]"
    "ss_clip request = Some \<lparr>clip_x = 0, clip_y = 0, clip_width = 800, clip_height = 600\<rparr>
     \<and> ss_fullPage request = None"
    by (auto simp: optChain_def)
  then show "\<exists>request.
      [r. Screenshot r \<leftarrow> fst (generateImage mock_engine ''<html></html>'' None)] = [request]
      \<and> ss_clip request = Some \<lparr>clip_x = 0, clip_y = 0, clip_width = 800, clip_height = 600\<rparr>
      \<and> ss_fullPage request = None"
    by blast
  from generateImage_clip_strategy [THEN conjunct1, THEN mp, OF steps0 [of ?noFull]]
  obtain request where
    "[r. Screenshot r \<leftarrow> fst (generateImage ?zero ''<html></html>'' ?noFull)] = [request]"
    "ss_fullPage request = Some False \<and> ss_clip request = None"
    by (auto simp: optChain_def no_imageOptions_def)
  then show "\<exists>request.
      [r. Screenshot r \<leftarrow> fst (generateImage ?zero ''<html></html>'' ?noFull)] = [request]
      \<and> ss_fullPage request = Some False
      \<and> ss_clip request = None"
    by blast
  from generateImage_clip_strategy [THEN conjunct1, THEN mp, OF steps0 [of None]]
  obtain request where
    "[r. Screenshot r \<leftarrow> fst (generateImage ?zero ''<html></html>'' None)] = [request]"
    "ss_fullPage request = Some True \<and> ss_clip request = None"
    by (auto simp: optChain_def)
  then show "\<exists>request.
      [r. Screenshot r \<leftarrow> fst (generateImage ?zero ''<html></html>'' None)] = [request]
      \<and> ss_fullPage request = Some True
      \<and> ss_clip request = None"
    by blast
qed

text \<open>
  Claim C6. Whenever the executable path resolves and the launch, the new page, the
  loading of the content and the content probe succeed, \<open>generateImage\<close> sends exactly
  one screenshot request. Its type is the caller's image type, or png when none was
  given. When that type is png the request has no \<open>quality\<close> key, whatever the caller
  supplied; when it is jpeg or webp the request carries \<open>quality\<close>, equal to the
  caller's value if given and to 80 if not. No call of \<open>generateImage\<close> sends a
  screenshot request that departs from this.
\<close>

theorem generateImage_quality_gating:
  "(snd (getExecutablePath env) = Inr path
    \<and> puppeteer_launch env (imageLaunchOptions env path options) = Inr ()
    \<and> browser_newPage env = Inr ()
    \<and> page_setContent env html [Load, Networkidle2] = Inr ()
    \<and> page_evaluate env = Inr d \<longrightarrow>
      (\<exists>request.
         [r. Screenshot r \<leftarrow> fst (generateImage env html options)] = [request]
         \<and> ss_type request = (case optChain options type of Some t \<Rightarrow> t | None \<Rightarrow> Png)
         \<and> (ss_type request = Png \<longrightarrow> ss_quality request = None)
         \<and> (ss_type request = Jpeg \<or> ss_type request = Webp \<longrightarrow>
              ss_quality request =
                Some (case optChain options quality of Some q \<Rightarrow> q | None \<Rightarrow> 80))))
   \<and> (\<forall>request. Screenshot request \<in> set (fst (generateImage env html options)) \<longrightarrow>
         ss_type request = (case optChain options type of Some t \<Rightarrow> t | None \<Rightarrow> Png)
         \<and> (ss_type request = Png \<longrightarrow> ss_quality request = None)
         \<and> (ss_type request = Jpeg \<or> ss_type request = Webp \<longrightarrow>
              ss_quality request =
                Some (case optChain options quality of Some q \<Rightarrow> q | None \<Rightarrow> 80)))"
  (is "(?steps \<longrightarrow> ?sent) \<and> (\<forall>request. ?made request \<longrightarrow> ?gated request)")
proof (rule conjI)
  show "?steps \<longrightarrow> ?sent"
  proof (rule impI)
    assume ?steps
    then obtain request
      where request: "snd (screenshotOptions options d) = Inr request"
        and sent: "[r. Screenshot r \<leftarrow> fst (generateImage env html options)] = [request]"
      using generateImage_screenshots [of env path options html d] by blast
    from screenshotOptions_quality [OF request] sent show ?sent
      by (intro exI [of _ request]) simp
  qed
  show "\<forall>request. ?made request \<longrightarrow> ?gated request"
  proof (intro allI impI)
    fix request
    assume "?made request"
    from generateImage_screenshot [OF this] obtain d'
      where "snd (screenshotOptions options d') = Inr request"
      by blast
    from screenshotOptions_quality [OF this] show "?gated request"
      by simp
  qed
qed

theorem generateImage_quality_gating_witness:
  "(\<exists>request.
      [r. Screenshot r \<leftarrow> fst (generateImage mock_engine ''<html></html>''
          (Some (no_imageOptions\<lparr>type := Some Jpeg\<rparr>)))] = [request]
      \<and> ss_type request = Jpeg \<and> ss_quality request = Some 80)
   \<and> (\<exists>request.
      [r. Screenshot r \<leftarrow> fst (generateImage mock_engine ''<html></html>''
          (Some (no_imageOptions\<lparr>type := Some Webp, quality := Some 55\<rparr>)))] = [request]
      \<and> ss_type request = Webp \<and> ss_quality request = Some 55)
   \<and> (\<exists>request.
      [r. Screenshot r \<leftarrow> fst (generateImage mock_engine ''<html></html>''
          (Some (no_imageOptions\<lparr>quality := Some 55\<rparr>)))] = [request]
      \<and> ss_type request = Png \<and> ss_quality request = None)"
proof (intro conjI)
  let ?jpeg = "Some (no_imageOptions\<lparr>type := Some Jpeg\<rparr>)"
  let ?webp = "Some (no_imageOptions\<lparr>type := Some Webp, quality := Some 55\<rparr>)"
  let ?png = "Some (no_imageOptions\<lparr>quality := Some 55\<rparr>)"
  have steps: "snd (getExecutablePath mock_engine) = Inr ''/usr/bin/chromium-test''
      \<and> puppeteer_launch mock_engine
           (imageLaunchOptions mock_engine ''/usr/bin/chromium-test'' options) = Inr ()
      \<and> browser_newPage mock_engine = Inr ()
      \<and> page_setContent mock_engine ''<html></html>'' [Load, Networkidle2] = Inr ()
      \<and> page_evaluate mock_engine = Inr \<lparr>content_width = 800, content_height = 600\<rparr>"
    for options
    by (simp add: mock_image_steps mock_engine_simps)
  from generateImage_quality_gating [THEN conjunct1, THEN mp, OF steps [of ?jpeg]]
  obtain request where
    "[r. Screenshot r \<leftarrow> fst (generateImage mock_engine ''<html></html>'' ?jpeg)] = [request]"
    "ss_type request = Jpeg \<and> ss_quality request = Some 80"
    by (auto simp: optChain_def no_imageOptions_def)
  then show "\<exists>request.
      [r. Screenshot r \<leftarrow> fst (generateImage mock_engine ''<html></html>'' ?jpeg)] = [request]
      \<and> ss_type request = Jpeg \<and> ss_quality request = Some 80"
    by blast
  from generateImage_quality_gating [THEN conjunct1, THEN mp, OF steps [of ?webp]]
  obtain request where
    "[r. Screenshot r \<leftarrow> fst (generateImage mock_engine ''<html></html>'' ?webp)] = [request]"
    "ss_type request = Webp \<and> ss_quality request = Some 55"
    by (auto simp: optChain_def no_imageOptions_def)
  then show "\<exists>request.
      [r. Screenshot r \<leftarrow> fst (generateImage mock_engine ''<html></html>'' ?webp)] = [request]
      \<and> ss_type request = Webp \<and> ss_quality request = Some 55"
    by blast
  from generateImage_quality_gating [THEN conjunct1, THEN mp, OF steps [of ?png]]
  obtain request where
    "[r. Screenshot r \<leftarrow> fst (generateImage mock_engine ''<html></html>'' ?png)] = [request]"
    "ss_type request = Png \<and> ss_quality request = None"
    by (auto simp: optChain_def no_imageOptions_def)
  then show "\<exists>request.
      [r. Screenshot r \<leftarrow> fst (generateImage mock_engine ''<html></html>'' ?png)] = [request]
      \<and> ss_type request = Png \<and> ss_quality request = None"
    by blast
qed

section \<open>Closing the browser\<close>

lemma getExecutablePath_no_Close: "count_list (fst (getExecutablePath env)) Close = 0"
  using getExecutablePath_events [of env] by (auto simp: count_list_0_iff)

lemma pdfTryBlock_no_Close: "count_list (fst (pdfTryBlock env html options)) Close = 0"
  by (simp add: pdfTryBlock_trace split: sum.splits)

lemma screenshotOptions_no_Close: "count_list (fst (screenshotOptions options d)) Close = 0"
  using screenshotOptions_events [of options d] by (auto simp: count_list_0_iff)

lemma imageTryBlock_no_Close: "count_list (fst (imageTryBlock env html options)) Close = 0"
  by (simp add: imageTryBlock_trace screenshotOptions_no_Close split: sum.splits)

text \<open>
  Claim C2, as the code has it. In every call of \<open>generatePdf\<close> or \<open>generateImage\<close>
  whose browser launch succeeds, \<open>browser.close()\<close> is called exactly once, whatever the
  \<open>try\<close> block did (success, page-load error, export or capture error). When the close
  succeeds, the caller gets what the \<open>try\<close> block completed with: its bytes, or its
  error unchanged. When the close itself fails, the caller gets the error of the close.
\<close>

theorem render_closes_browser_once:
  "(snd (getExecutablePath env) = Inr path \<and>
    puppeteer_launch env (pdfLaunchOptions env path) = Inr () \<longrightarrow>
      count_list (fst (generatePdf env html po)) Close = 1 \<and>
      snd (generatePdf env html po) =
        (case browser_close env of
           Inl c \<Rightarrow> Inl c
         | Inr _ \<Rightarrow> snd (pdfTryBlock env html po)))
   \<and>
   (snd (getExecutablePath env) = Inr path \<and>
    puppeteer_launch env (imageLaunchOptions env path io) = Inr () \<longrightarrow>
      count_list (fst (generateImage env html io)) Close = 1 \<and>
      snd (generateImage env html io) =
        (case browser_close env of
           Inl c \<Rightarrow> Inl c
         | Inr _ \<Rightarrow> snd (imageTryBlock env html io)))"
  by (simp add: generatePdf_trace generatePdf_outcome generateImage_trace generateImage_outcome
        getExecutablePath_no_Close pdfTryBlock_no_Close imageTryBlock_no_Close)

theorem render_closes_browser_once_witness:
  "snd (getExecutablePath (mock_engine\<lparr>page_pdf := \<lambda>_. Inl render_failed\<rparr>))
     = Inr ''/usr/bin/chromium-test''
   \<and> puppeteer_launch (mock_engine\<lparr>page_pdf := \<lambda>_. Inl render_failed\<rparr>)
        (pdfLaunchOptions (mock_engine\<lparr>page_pdf := \<lambda>_. Inl render_failed\<rparr>)
           ''/usr/bin/chromium-test'') = Inr ()
   \<and> count_list (fst (generatePdf (mock_engine\<lparr>page_pdf := \<lambda>_. Inl render_failed\<rparr>)
                          ''<html></html>'' None)) Close = 1
   \<and> snd (generatePdf (mock_engine\<lparr>page_pdf := \<lambda>_. Inl render_failed\<rparr>)
             ''<html></html>'' None) = Inl render_failed
   \<and> count_list (fst (generateImage (mock_engine\<lparr>page_pdf := \<lambda>_. Inl render_failed\<rparr>)
                          ''<html></html>'' None)) Close = 1
   \<and> snd (generateImage (mock_engine\<lparr>page_pdf := \<lambda>_. Inl render_failed\<rparr>)
             ''<html></html>'' None) = Inr [137, 80, 78, 71]"
proof -
  let ?env = "mock_engine\<lparr>page_pdf := \<lambda>_. Inl render_failed\<rparr>"
  have path: "snd (getExecutablePath ?env) = Inr ''/usr/bin/chromium-test''"
    by (simp add: getExecutablePath_outcome mock_engine_simps)
  have launch: "puppeteer_launch ?env (pdfLaunchOptions ?env ''/usr/bin/chromium-test'') = Inr ()"
    by (simp add: mock_engine_simps)
  have launch': "puppeteer_launch ?env (imageLaunchOptions ?env ''/usr/bin/chromium-test'' None)
                   = Inr ()"
    by (simp add: mock_engine_simps)
  have body: "snd (pdfTryBlock ?env ''<html></html>'' None) = Inl render_failed"
    by (simp add: pdfTryBlock_outcome mock_engine_simps)
  have body': "snd (imageTryBlock ?env ''<html></html>'' None) = Inr [137, 80, 78, 71]"
    by (simp add: imageTryBlock_def eff_simps screenshotOptions_def Let_def optChain_def
          mock_engine_simps)
  from render_closes_browser_once [of ?env "''/usr/bin/chromium-test''" "''<html></html>''" None None]
    path launch launch' body body'
  show ?thesis by (simp add: mock_engine_simps)
qed

text \<open>
  The export throws \<open>render failed\<close>, then the close throws \<open>close failed\<close>: the browser
  is closed once and the caller sees \<open>close failed\<close>, not the error of the export.
\<close>

theorem close_failure_masks_render_error:
  "snd (pdfTryBlock (mock_engine\<lparr>page_pdf := \<lambda>_. Inl render_failed,
                                   browser_close := Inl close_failed\<rparr>)
          ''<html></html>'' None) = Inl render_failed
   \<and> count_list (fst (generatePdf (mock_engine\<lparr>page_pdf := \<lambda>_. Inl render_failed,
                                                 browser_close := Inl close_failed\<rparr>)
                          ''<html></html>'' None)) Close = 1
   \<and> snd (generatePdf (mock_engine\<lparr>page_pdf := \<lambda>_. Inl render_failed,
                                      browser_close := Inl close_failed\<rparr>)
             ''<html></html>'' None) = Inl close_failed
   \<and> snd (generatePdf (mock_engine\<lparr>page_pdf := \<lambda>_. Inl render_failed,
                                      browser_close := Inl close_failed\<rparr>)
             ''<html></html>'' None) \<noteq> Inl render_failed"
  by (simp add: generatePdf_trace generatePdf_outcome pdfTryBlock_trace pdfTryBlock_outcome
        getExecutablePath_trace getExecutablePath_outcome mock_engine_simps
        render_failed_def close_failed_def)

section \<open>Launch options and PDF requests\<close>

lemma imageTryBlock_no_Launch: "Launch lo \<notin> set (fst (imageTryBlock env html options))"
proof -
  have "\<And>d. Launch lo \<notin> set (fst (screenshotOptions options d))"
    using screenshotOptions_events [of options] by auto
  then show ?thesis
    by (simp add: imageTryBlock_trace split: sum.splits)
qed

lemma pdfTryBlock_no_Launch: "Launch lo \<notin> set (fst (pdfTryBlock env html options))"
  by (simp add: pdfTryBlock_trace split: sum.splits)

lemma getExecutablePath_no_Launch: "Launch lo \<notin> set (fst (getExecutablePath env))"
  using getExecutablePath_events [of env] by auto

lemma getExecutablePath_no_SetContent: "SetContent h w \<notin> set (fst (getExecutablePath env))"
  using getExecutablePath_events [of env] by auto

lemma generateImage_launch:
  assumes "Launch lo \<in> set (fst (generateImage env html options))"
  shows "\<exists>path. snd (getExecutablePath env) = Inr path \<and> lo = imageLaunchOptions env path options"
  using assms getExecutablePath_no_Launch [of lo env] imageTryBlock_no_Launch [of lo env html options]
  by (auto simp: generateImage_trace split: sum.splits)

lemma generatePdf_launch:
  assumes "Launch lo \<in> set (fst (generatePdf env html options))"
  shows "\<exists>path. snd (getExecutablePath env) = Inr path \<and> lo = pdfLaunchOptions env path"
  using assms getExecutablePath_no_Launch [of lo env] pdfTryBlock_no_Launch [of lo env html options]
  by (auto simp: generatePdf_trace split: sum.splits)

lemma imageTryBlock_launches: "[l. Launch l \<leftarrow> fst (imageTryBlock env html options)] = []"
  using imageTryBlock_no_Launch [of _ env html options]
  by (auto split: event.splits)

lemma generateImage_launches:
  assumes "snd (getExecutablePath env) = Inr path"
  shows "[l. Launch l \<leftarrow> fst (generateImage env html options)]
           = [imageLaunchOptions env path options]"
proof (cases "puppeteer_launch env (imageLaunchOptions env path options)")
  case (Inl e)
  then show ?thesis
    by (simp add: generateImage_trace assms getExecutablePath_makes_no_request)
next
  case (Inr u)
  have "[l. Launch l \<leftarrow> fst (imageTryBlock env html options) @ [Close]] = []"
    using imageTryBlock_launches [of env html options] by simp
  with Inr show ?thesis
    by (simp add: generateImage_trace assms getExecutablePath_makes_no_request)
qed

text \<open>
  Claim C8. Whenever the executable path resolves, \<open>generateImage\<close> launches the browser
  exactly once, with that path and with a viewport in which each field is the caller's
  value if given and otherwise its default: \<open>deviceScaleFactor\<close> 1, \<open>hasTouch\<close> false,
  \<open>isLandscape\<close> false, \<open>isMobile\<close> true, \<open>width\<close> 320, \<open>height\<close> 1080. The launch
  comes before any page is opened or any content is loaded. No call of \<open>generateImage\<close>
  makes a launch of any other kind.
\<close>

theorem generateImage_viewport:
  "(snd (getExecutablePath env) = Inr path \<longrightarrow>
      (\<exists>lo.
         [l. Launch l \<leftarrow> fst (generateImage env html options)] = [lo]
         \<and> executablePath lo = path
         \<and> defaultViewport lo =
             Some \<lparr>vp_deviceScaleFactor =
                      (case optChain options deviceScaleFactor of Some v \<Rightarrow> v | None \<Rightarrow> 1),
                    vp_hasTouch = (case optChain options hasTouch of Some v \<Rightarrow> v | None \<Rightarrow> False),
                    vp_isLandscape =
                      (case optChain options isLandscape of Some v \<Rightarrow> v | None \<Rightarrow> False),
                    vp_isMobile = (case optChain options isMobile of Some v \<Rightarrow> v | None \<Rightarrow> True),
                    vp_width = (case optChain options width of Some v \<Rightarrow> v | None \<Rightarrow> 320),
                    vp_height = (case optChain options height of Some v \<Rightarrow> v | None \<Rightarrow> 1080)\<rparr>
         \<and> (\<exists>before after.
               fst (generateImage env html options) = before @ Launch lo # after
               \<and> (\<forall>h w. SetContent h w \<notin> set before)
               \<and> NewPage \<notin> set before
               \<and> (\<forall>lo'. Launch lo' \<notin> set after))))
   \<and> (\<forall>lo. Launch lo \<in> set (fst (generateImage env html options)) \<longrightarrow>
         defaultViewport lo =
             Some \<lparr>vp_deviceScaleFactor =
                      (case optChain options deviceScaleFactor of Some v \<Rightarrow> v | None \<Rightarrow> 1),
                    vp_hasTouch = (case optChain options hasTouch of Some v \<Rightarrow> v | None \<Rightarrow> False),
                    vp_isLandscape =
                      (case optChain options isLandscape of Some v \<Rightarrow> v | None \<Rightarrow> False),
                    vp_isMobile = (case optChain options isMobile of Some v \<Rightarrow> v | None \<Rightarrow> True),
                    vp_width = (case optChain options width of Some v \<Rightarrow> v | None \<Rightarrow> 320),
                    vp_height = (case optChain options height of Some v \<Rightarrow> v | None \<Rightarrow> 1080)\<rparr>
         \<and> (\<exists>before after.
               fst (generateImage env html options) = before @ Launch lo # after
               \<and> (\<forall>h w. SetContent h w \<notin> set before)
               \<and> NewPage \<notin> set before
               \<and> (\<forall>lo'. Launch lo' \<notin> set after)))"
  (is "(?resolved \<longrightarrow> ?launched) \<and> (\<forall>lo. ?made lo \<longrightarrow> ?fixed lo)")
proof -
  have at_launch: "?fixed lo"
    if path: "snd (getExecutablePath env) = Inr p" and lo: "lo = imageLaunchOptions env p options"
    for lo p
  proof -
    let ?before = "fst (getExecutablePath env) @ [SetGraphicsMode False]"
    let ?after = "case puppeteer_launch env lo of
                    Inl e \<Rightarrow> []
                  | Inr _ \<Rightarrow> fst (imageTryBlock env html options) @ [Close]"
    have shape: "fst (generateImage env html options) = ?before @ Launch lo # ?after"
      by (simp add: generateImage_trace path lo)
    have before: "(\<forall>h w. SetContent h w \<notin> set ?before) \<and> NewPage \<notin> set ?before"
      using getExecutablePath_events [of env] by auto
    have after: "\<forall>lo'. Launch lo' \<notin> set ?after"
      using imageTryBlock_no_Launch [of _ env html options] by (simp split: sum.splits)
    from shape before after have
      "\<exists>before after.
               fst (generateImage env html options) = before @ Launch lo # after
               \<and> (\<forall>h w. SetContent h w \<notin> set before)
               \<and> NewPage \<notin> set before
               \<and> (\<forall>lo'. Launch lo' \<notin> set after)"
      by blast
    moreover have "defaultViewport lo =
             Some \<lparr>vp_deviceScaleFactor =
                      (case optChain options deviceScaleFactor of Some v \<Rightarrow> v | None \<Rightarrow> 1),
                    vp_hasTouch = (case optChain options hasTouch of Some v \<Rightarrow> v | None \<Rightarrow> False),
                    vp_isLandscape =
                      (case optChain options isLandscape of Some v \<Rightarrow> v | None \<Rightarrow> False),
                    vp_isMobile = (case optChain options isMobile of Some v \<Rightarrow> v | None \<Rightarrow> True),
                    vp_width = (case optChain options width of Some v \<Rightarrow> v | None \<Rightarrow> 320),
                    vp_height = (case optChain options height of Some v \<Rightarrow> v | None \<Rightarrow> 1080)\<rparr>"
      by (simp add: lo imageLaunchOptions_def nullish_def)
    ultimately show ?thesis
      by blast
  qed
  show ?thesis
  proof (rule conjI)
    show "?resolved \<longrightarrow> ?launched"
    proof (rule impI)
      assume path: ?resolved
      let ?lo = "imageLaunchOptions env path options"
      have "[l. Launch l \<leftarrow> fst (generateImage env html options)] = [?lo]"
        using path by (rule generateImage_launches)
      moreover have "executablePath ?lo = path"
        by (simp add: imageLaunchOptions_def)
      ultimately show ?launched
        using at_launch [OF path refl] by (intro exI [of _ ?lo]) blast
    qed
    show "\<forall>lo. ?made lo \<longrightarrow> ?fixed lo"
    proof (intro allI impI)
      fix lo
      assume "?made lo"
      from generateImage_launch [OF this] obtain p
        where "snd (getExecutablePath env) = Inr p" and "lo = imageLaunchOptions env p options"
        by blast
      then show "?fixed lo"
        by (rule at_launch)
    qed
  qed
qed

theorem generateImage_viewport_witness:
  "(\<exists>lo.
      [l. Launch l \<leftarrow> fst (generateImage mock_engine ''<html></html>'' None)] = [lo]
      \<and> defaultViewport lo =
          Some \<lparr>vp_deviceScaleFactor = 1, vp_hasTouch = False, vp_isLandscape = False,
                 vp_isMobile = True, vp_width = 320, vp_height = 1080\<rparr>)
   \<and> (\<exists>lo.
      [l. Launch l \<leftarrow> fst (generateImage mock_engine ''<html></html>''
           (Some (no_imageOptions\<lparr>deviceScaleFactor := Some 2, isMobile := Some False,
                                   width := Some 1024\<rparr>)))] = [lo]
      \<and> defaultViewport lo =
          Some \<lparr>vp_deviceScaleFactor = 2, vp_hasTouch = False, vp_isLandscape = False,
                 vp_isMobile = False, vp_width = 1024, vp_height = 1080\<rparr>)"
proof (intro conjI)
  let ?some = "Some (no_imageOptions\<lparr>deviceScaleFactor := Some 2, isMobile := Some False,
                                   width := Some 1024\<rparr>)"
  have path: "snd (getExecutablePath mock_engine) = Inr ''/usr/bin/chromium-test''"
    by (simp add: mock_image_steps)
  from generateImage_viewport
    [where html = "''<html></html>''" and options = None, THEN conjunct1, THEN mp, OF path]
  obtain lo where
    "[l. Launch l \<leftarrow> fst (generateImage mock_engine ''<html></html>'' None)] = [lo]"
    "defaultViewport lo =
          Some \<lparr>vp_deviceScaleFactor = 1, vp_hasTouch = False, vp_isLandscape = False,
                 vp_isMobile = True, vp_width = 320, vp_height = 1080\<rparr>"
    by (auto simp: optChain_def)
  then show "\<exists>lo.
      [l. Launch l \<leftarrow> fst (generateImage mock_engine ''<html></html>'' None)] = [lo]
      \<and> defaultViewport lo =
          Some \<lparr>vp_deviceScaleFactor = 1, vp_hasTouch = False, vp_isLandscape = False,
                 vp_isMobile = True, vp_width = 320, vp_height = 1080\<rparr>"
    by blast
  from generateImage_viewport
    [where html = "''<html></html>''" and options = ?some, THEN conjunct1, THEN mp, OF path]
  obtain lo where
    "[l. Launch l \<leftarrow> fst (generateImage mock_engine ''<html></html>'' ?some)] = [lo]"
    "defaultViewport lo =
          Some \<lparr>vp_deviceScaleFactor = 2, vp_hasTouch = False, vp_isLandscape = False,
                 vp_isMobile = False, vp_width = 1024, vp_height = 1080\<rparr>"
    by (auto simp: optChain_def no_imageOptions_def)
  then show "\<exists>lo.
      [l. Launch l \<leftarrow> fst (generateImage mock_engine ''<html></html>'' ?some)] = [lo]
      \<and> defaultViewport lo =
          Some \<lparr>vp_deviceScaleFactor = 2, vp_hasTouch = False, vp_isLandscape = False,
                 vp_isMobile = False, vp_width = 1024, vp_height = 1080\<rparr>"
    by blast
qed

lemma generatePdf_request:
  assumes "PagePdf request \<in> set (fst (generatePdf env html options))"
  shows "request = pdfRequest options"
proof -
  have "PagePdf request \<notin> set (fst (getExecutablePath env))"
    using getExecutablePath_events [of env] by auto
  with assms show ?thesis
    by (auto simp: generatePdf_trace pdfTryBlock_trace split: sum.splits)
qed

lemma generatePdf_requests:
  assumes "snd (getExecutablePath env) = Inr path"
    and "puppeteer_launch env (pdfLaunchOptions env path) = Inr ()"
    and "browser_newPage env = Inr ()"
    and "page_setContent env html [Networkidle0] = Inr ()"
  shows "[r. PagePdf r \<leftarrow> fst (generatePdf env html options)] = [pdfRequest options]"
  by (simp add: generatePdf_trace pdfTryBlock_trace assms getExecutablePath_makes_no_request)

text \<open>
  Claim C4, as the code has it. Whenever the executable path resolves and the launch, the
  new page and the loading of the content succeed, \<open>generatePdf\<close> passes exactly one
  request to the PDF export. In it each of \<open>format\<close>, \<open>landscape\<close>,
  \<open>printBackground\<close>, \<open>tagged\<close> and \<open>preferCSSPageSize\<close> is the caller's value if
  given and otherwise its own default (A4, false, true, true, true). The margin is
  defaulted as one object: when the caller gives no margin all four sides are 10mm, and
  when the caller gives a margin that object is passed through unchanged, its missing
  sides staying missing. No call of \<open>generatePdf\<close> passes a request that departs from this.
\<close>

theorem generatePdf_defaults:
  "(snd (getExecutablePath env) = Inr path
    \<and> puppeteer_launch env (pdfLaunchOptions env path) = Inr ()
    \<and> browser_newPage env = Inr ()
    \<and> page_setContent env html [Networkidle0] = Inr () \<longrightarrow>
      (\<exists>request.
         [r. PagePdf r \<leftarrow> fst (generatePdf env html options)] = [request]
         \<and> pdf_format request = (case optChain options format of Some v \<Rightarrow> v | None \<Rightarrow> A4)
         \<and> pdf_landscape request =
             (case optChain options landscape of Some v \<Rightarrow> v | None \<Rightarrow> False)
         \<and> pdf_printBackground request =
             (case optChain options printBackground of Some v \<Rightarrow> v | None \<Rightarrow> True)
         \<and> pdf_tagged request = (case optChain options tagged of Some v \<Rightarrow> v | None \<Rightarrow> True)
         \<and> pdf_preferCSSPageSize request =
             (case optChain options preferCSSPageSize of Some v \<Rightarrow> v | None \<Rightarrow> True)
         \<and> pdf_margin request =
             (case optChain options margin of
                Some m \<Rightarrow> m
              | None \<Rightarrow> \<lparr>margin_top = Some ''10mm'', margin_right = Some ''10mm'',
                         margin_bottom = Some ''10mm'', margin_left = Some ''10mm''\<rparr>)))
   \<and> (\<forall>request. PagePdf request \<in> set (fst (generatePdf env html options)) \<longrightarrow>
         pdf_format request = (case optChain options format of Some v \<Rightarrow> v | None \<Rightarrow> A4)
         \<and> pdf_landscape request =
             (case optChain options landscape of Some v \<Rightarrow> v | None \<Rightarrow> False)
         \<and> pdf_printBackground request =
             (case optChain options printBackground of Some v \<Rightarrow> v | None \<Rightarrow> True)
         \<and> pdf_tagged request = (case optChain options tagged of Some v \<Rightarrow> v | None \<Rightarrow> True)
         \<and> pdf_preferCSSPageSize request =
             (case optChain options preferCSSPageSize of Some v \<Rightarrow> v | None \<Rightarrow> True)
         \<and> pdf_margin request =
             (case optChain options margin of
                Some m \<Rightarrow> m
              | None \<Rightarrow> \<lparr>margin_top = Some ''10mm'', margin_right = Some ''10mm'',
                         margin_bottom = Some ''10mm'', margin_left = Some ''10mm''\<rparr>))"
  (is "(?steps \<longrightarrow> ?sent) \<and> (\<forall>request. ?made request \<longrightarrow> ?merged request)")
proof (rule conjI)
  have merged: "?merged (pdfRequest options)"
    by (simp add: pdfRequest_def nullish_def)
  show "?steps \<longrightarrow> ?sent"
  proof (rule impI)
    assume ?steps
    then have "[r. PagePdf r \<leftarrow> fst (generatePdf env html options)] = [pdfRequest options]"
      using generatePdf_requests [of env path html options] by blast
    with merged show ?sent
      by (intro exI [of _ "pdfRequest options"]) blast
  qed
  show "\<forall>request. ?made request \<longrightarrow> ?merged request"
  proof (intro allI impI)
    fix request
    assume "?made request"
    then have "request = pdfRequest options"
      by (rule generatePdf_request)
    with merged show "?merged request"
      by simp
  qed
qed

theorem generatePdf_defaults_witness:
  "(\<exists>request.
      [r. PagePdf r \<leftarrow> fst (generatePdf mock_engine ''<html></html>''
          (Some (no_pdfOptions\<lparr>format := Some Letter, landscape := Some True\<rparr>)))] = [request]
      \<and> pdf_format request = Letter
      \<and> pdf_landscape request = True
      \<and> pdf_printBackground request = True
      \<and> pdf_tagged request = True
      \<and> pdf_preferCSSPageSize request = True
      \<and> pdf_margin request = \<lparr>margin_top = Some ''10mm'', margin_right = Some ''10mm'',
                                margin_bottom = Some ''10mm'', margin_left = Some ''10mm''\<rparr>)
   \<and> (\<exists>request.
      [r. PagePdf r \<leftarrow> fst (generatePdf mock_engine ''<html></html>''
          (Some only_margin_top))] = [request]
      \<and> pdf_format request = A4
      \<and> pdf_margin request = \<lparr>margin_top = Some ''5mm'', margin_right = None,
                                margin_bottom = None, margin_left = None\<rparr>)"
proof (intro conjI)
  let ?letter = "Some (no_pdfOptions\<lparr>format := Some Letter, landscape := Some True\<rparr>)"
  have steps: "snd (getExecutablePath mock_engine) = Inr ''/usr/bin/chromium-test''
      \<and> puppeteer_launch mock_engine (pdfLaunchOptions mock_engine ''/usr/bin/chromium-test'')
          = Inr ()
      \<and> browser_newPage mock_engine = Inr ()
      \<and> page_setContent mock_engine ''<html></html>'' [Networkidle0] = Inr ()"
    by (simp add: mock_image_steps mock_engine_simps)
  from generatePdf_defaults [where options = ?letter, THEN conjunct1, THEN mp, OF steps]
  obtain request where
    "[r. PagePdf r \<leftarrow> fst (generatePdf mock_engine ''<html></html>'' ?letter)] = [request]"
    "pdf_format request = Letter
      \<and> pdf_landscape request = True
      \<and> pdf_printBackground request = True
      \<and> pdf_tagged request = True
      \<and> pdf_preferCSSPageSize request = True
      \<and> pdf_margin request = \<lparr>margin_top = Some ''10mm'', margin_right = Some ''10mm'',
                                margin_bottom = Some ''10mm'', margin_left = Some ''10mm''\<rparr>"
    by (auto simp: optChain_def no_pdfOptions_def)
  then show "\<exists>request.
      [r. PagePdf r \<leftarrow> fst (generatePdf mock_engine ''<html></html>'' ?letter)] = [request]
      \<and> pdf_format request = Letter
      \<and> pdf_landscape request = True
      \<and> pdf_printBackground request = True
      \<and> pdf_tagged request = True
      \<and> pdf_preferCSSPageSize request = True
      \<and> pdf_margin request = \<lparr>margin_top = Some ''10mm'', margin_right = Some ''10mm'',
                                margin_bottom = Some ''10mm'', margin_left = Some ''10mm''\<rparr>"
    by blast
  from generatePdf_defaults
         [where options = "Some only_margin_top", THEN conjunct1, THEN mp, OF steps]
  obtain request where
    "[r. PagePdf r \<leftarrow> fst (generatePdf mock_engine ''<html></html>'' (Some only_margin_top))]
       = [request]"
    "pdf_format request = A4
      \<and> pdf_margin request = \<lparr>margin_top = Some ''5mm'', margin_right = None,
                                margin_bottom = None, margin_left = None\<rparr>"
    by (auto simp: optChain_def no_pdfOptions_def only_margin_top_def)
  then show "\<exists>request.
      [r. PagePdf r \<leftarrow> fst (generatePdf mock_engine ''<html></html>'' (Some only_margin_top))]
        = [request]
      \<and> pdf_format request = A4
      \<and> pdf_margin request = \<lparr>margin_top = Some ''5mm'', margin_right = None,
                                margin_bottom = None, margin_left = None\<rparr>"
    by blast
qed

text \<open>
  A caller who gives only \<open>margin.top\<close>: the export receives that margin object as it is,
  so its right side is absent rather than 10mm.
\<close>

theorem margin_sides_not_defaulted:
  "margin only_margin_top = Some \<lparr>margin_top = Some ''5mm'', margin_right = None,
                                    margin_bottom = None, margin_left = None\<rparr>
   \<and> [r. PagePdf r \<leftarrow> fst (generatePdf mock_engine ''<html></html>'' (Some only_margin_top))]
       = [\<lparr>pdf_format = A4, pdf_landscape = False, pdf_printBackground = True,
           pdf_margin = \<lparr>margin_top = Some ''5mm'', margin_right = None,
                          margin_bottom = None, margin_left = None\<rparr>,
           pdf_tagged = True, pdf_preferCSSPageSize = True\<rparr>]
   \<and> margin_right \<lparr>margin_top = Some ''5mm'', margin_right = None,
                    margin_bottom = None, margin_left = None\<rparr> \<noteq> Some ''10mm''"
  by (simp add: generatePdf_trace pdfTryBlock_trace mock_getExecutablePath pdfRequest_def
        nullish_def optChain_def mock_engine_simps no_pdfOptions_def only_margin_top_def)

section \<open>Executable path\<close>

lemma appConfig_empty_chromium_path:
  "appConfig (penv(''LOCAL_CHROMIUM_PATH'' \<mapsto> [])) = appConfig (penv(''LOCAL_CHROMIUM_PATH'' := None))"
  by (simp add: appConfig_def orUndefined_def)

lemma appConfig_localChromiumPath:
  assumes "appConfig penv = Inr cfg"
  shows "localChromiumPath cfg =
           (case penv ''LOCAL_CHROMIUM_PATH'' of
              None \<Rightarrow> None
            | Some s \<Rightarrow> if s = [] then None else Some s)"
  using assms
  by (auto simp: appConfig_def orUndefined_def Let_def split: option.splits if_splits)

text \<open>
  Claim C9. When the configured \<open>localChromiumPath\<close> is undefined or the empty string,
  \<open>getExecutablePath\<close> asks the chromium package and its outcome is the outcome of
  that call. When it is a non-empty string, that string is returned and the chromium
  package is not asked. The launch of \<open>generatePdf\<close> and of \<open>generateImage\<close> gets the
  path so resolved. In the configuration loader an empty \<open>LOCAL_CHROMIUM_PATH\<close> gives the
  same configuration as an unset one, with \<open>localChromiumPath\<close> undefined.
\<close>

theorem executablePath_resolution:
  "(config_localChromiumPath env = None \<or> config_localChromiumPath env = Some [] \<longrightarrow>
      snd (getExecutablePath env) = chromium_executablePath env
      \<and> ChromiumExecutablePath \<in> set (fst (getExecutablePath env)))
   \<and> (config_localChromiumPath env = Some p \<and> p \<noteq> [] \<longrightarrow>
        snd (getExecutablePath env) = Inr p
        \<and> ChromiumExecutablePath \<notin> set (fst (getExecutablePath env)))
   \<and> getExecutablePath (env\<lparr>config_localChromiumPath := Some []\<rparr>)
        = getExecutablePath (env\<lparr>config_localChromiumPath := None\<rparr>)
   \<and> (Launch lo \<in> set (fst (generatePdf env html po)) \<longrightarrow>
        snd (getExecutablePath env) = Inr (executablePath lo))
   \<and> (Launch lo \<in> set (fst (generateImage env html io)) \<longrightarrow>
        snd (getExecutablePath env) = Inr (executablePath lo))
   \<and> appConfig (penv(''LOCAL_CHROMIUM_PATH'' \<mapsto> []))
        = appConfig (penv(''LOCAL_CHROMIUM_PATH'' := None))
   \<and> (appConfig penv = Inr cfg \<longrightarrow>
        localChromiumPath cfg =
          (case penv ''LOCAL_CHROMIUM_PATH'' of
             None \<Rightarrow> None
           | Some s \<Rightarrow> if s = [] then None else Some s))"
proof (intro conjI impI)
  assume "config_localChromiumPath env = None \<or> config_localChromiumPath env = Some []"
  then show "snd (getExecutablePath env) = chromium_executablePath env"
    by (auto simp: getExecutablePath_outcome)
next
  assume "config_localChromiumPath env = None \<or> config_localChromiumPath env = Some []"
  then show "ChromiumExecutablePath \<in> set (fst (getExecutablePath env))"
    by (auto simp: getExecutablePath_trace split: sum.splits)
next
  assume "config_localChromiumPath env = Some p \<and> p \<noteq> []"
  then show "snd (getExecutablePath env) = Inr p"
    by (simp add: getExecutablePath_outcome)
next
  assume "config_localChromiumPath env = Some p \<and> p \<noteq> []"
  then show "ChromiumExecutablePath \<notin> set (fst (getExecutablePath env))"
    by (simp add: getExecutablePath_trace)
next
  show "getExecutablePath (env\<lparr>config_localChromiumPath := Some []\<rparr>)
        = getExecutablePath (env\<lparr>config_localChromiumPath := None\<rparr>)"
    by (simp add: getExecutablePath_def)
next
  assume "Launch lo \<in> set (fst (generatePdf env html po))"
  from generatePdf_launch [OF this] show "snd (getExecutablePath env) = Inr (executablePath lo)"
    by (auto simp: pdfLaunchOptions_def)
next
  assume "Launch lo \<in> set (fst (generateImage env html io))"
  from generateImage_launch [OF this] show "snd (getExecutablePath env) = Inr (executablePath lo)"
    by (auto simp: imageLaunchOptions_def)
next
  show "appConfig (penv(''LOCAL_CHROMIUM_PATH'' \<mapsto> []))
        = appConfig (penv(''LOCAL_CHROMIUM_PATH'' := None))"
    by (rule appConfig_empty_chromium_path)
next
  assume "appConfig penv = Inr cfg"
  then show "localChromiumPath cfg =
          (case penv ''LOCAL_CHROMIUM_PATH'' of
             None \<Rightarrow> None
           | Some s \<Rightarrow> if s = [] then None else Some s)"
    by (rule appConfig_localChromiumPath)
qed

theorem executablePath_resolution_witness:
  "config_localChromiumPath (mock_engine\<lparr>config_localChromiumPath := Some []\<rparr>) = Some []
   \<and> snd (getExecutablePath (mock_engine\<lparr>config_localChromiumPath := Some []\<rparr>))
       = Inr ''/usr/bin/chromium-test''
   \<and> config_localChromiumPath (mock_engine\<lparr>config_localChromiumPath := Some ''/opt/chrome''\<rparr>)
       = Some ''/opt/chrome''
   \<and> snd (getExecutablePath (mock_engine\<lparr>config_localChromiumPath := Some ''/opt/chrome''\<rparr>))
       = Inr ''/opt/chrome''
   \<and> Launch (pdfLaunchOptions mock_engine ''/usr/bin/chromium-test'')
       \<in> set (fst (generatePdf mock_engine ''<html></html>'' None))
   \<and> Launch (imageLaunchOptions mock_engine ''/usr/bin/chromium-test'' None)
       \<in> set (fst (generateImage mock_engine ''<html></html>'' None))
   \<and> appConfig mock_env =
       Inr \<lparr>redisHost = ''localhost'', redisPassword = None, redisTls = False,
            s3BucketName = ''test-bucket'', awsRegion = ''us-east-1'',
            pdfGenerationQueue = ''pdf-generation'', localChromiumPath = None,
            nodeEnv = ''production''\<rparr>"
proof -
  let ?empty = "mock_engine\<lparr>config_localChromiumPath := Some []\<rparr>"
  let ?local = "mock_engine\<lparr>config_localChromiumPath := Some ''/opt/chrome''\<rparr>"
  let ?cfg = "\<lparr>redisHost = ''localhost'', redisPassword = None, redisTls = False,
            s3BucketName = ''test-bucket'', awsRegion = ''us-east-1'',
            pdfGenerationQueue = ''pdf-generation'', localChromiumPath = None,
            nodeEnv = ''production''\<rparr>"
  have empty: "config_localChromiumPath ?empty = None \<or> config_localChromiumPath ?empty = Some []"
    by simp
  have local: "config_localChromiumPath ?local = Some ''/opt/chrome'' \<and> ''/opt/chrome'' \<noteq> []"
    by simp
  have pdf: "Launch (pdfLaunchOptions mock_engine ''/usr/bin/chromium-test'')
       \<in> set (fst (generatePdf mock_engine ''<html></html>'' None))"
    by (simp add: generatePdf_trace mock_getExecutablePath)
  have image: "Launch (imageLaunchOptions mock_engine ''/usr/bin/chromium-test'' None)
       \<in> set (fst (generateImage mock_engine ''<html></html>'' None))"
    by (simp add: generateImage_trace mock_getExecutablePath)
  have cfg: "appConfig mock_env = Inr ?cfg"
    by (simp add: appConfig_def mock_env_def orUndefined_def nullish_def)
  from executablePath_resolution
         [of ?empty "''/opt/chrome''" "pdfLaunchOptions mock_engine ''/usr/bin/chromium-test''"
             "''<html></html>''" None None mock_env ?cfg]
       empty
  have 1: "snd (getExecutablePath ?empty) = chromium_executablePath ?empty"
    by blast
  from executablePath_resolution
         [of ?local "''/opt/chrome''" "pdfLaunchOptions mock_engine ''/usr/bin/chromium-test''"
             "''<html></html>''" None None mock_env ?cfg]
       local
  have 2: "snd (getExecutablePath ?local) = Inr ''/opt/chrome''"
    by blast
  from 1 2 pdf image cfg show ?thesis
    by (simp add: mock_engine_simps)
qed

section \<open>The shape of an upload and of a job\<close>

lemma renderStep_trace:
  "fst (renderStep p job) =
     [if documentType (data job) = Pdf
      then CallGeneratePdf (htmlContent (data job)) (pdfOptions (data job))
      else CallGenerateImage (htmlContent (data job)) (imageOptions (data job))]"
  by (simp add: renderStep_def)

lemma renderStep_outcome:
  "snd (renderStep p job) =
     (if documentType (data job) = Pdf
      then puppeteer_generatePdf p (htmlContent (data job)) (pdfOptions (data job))
      else puppeteer_generateImage p (htmlContent (data job)) (imageOptions (data job)))"
  by (simp add: renderStep_def)

lemma process_outcome:
  "snd (process p job) =
     (case snd (renderStep p job) of
        Inl e \<Rightarrow> Inl e
      | Inr buffer \<Rightarrow>
          (case s3_upload p (s3Key (data job)) buffer (documentType (data job)) of
             Inl e \<Rightarrow> Inl e
           | Inr url \<Rightarrow> Inr (jobResult job url (date_toISOString p))))"
  by (simp add: process_def eff_simps Let_def split: sum.splits)

lemma process_trace:
  "fst (process p job) =
     ProcLog [(''msg'', JStr ''Job started''),
              (''jobId'', JStr (job_id job)),
              (''queue'', JStr (queueName job)),
              (''documentType'', JStr (documentType_string (documentType (data job)))),
              (''s3Key'', JStr (s3Key (data job))),
              (''userId'', JStr (userId (data job)))] #
     fst (renderStep p job) @
     (case snd (renderStep p job) of
        Inl e \<Rightarrow>
          [ProcError [(''msg'', JStr ''Job failed''),
                      (''jobId'', JStr (job_id job)),
                      (''queue'', JStr (queueName job)),
                      (''error'', JStr (message e)),
                      (''stack'', JStr (stack e))]]
      | Inr buffer \<Rightarrow>
          [ProcLog [(''msg'', JStr ''Document generated''),
                    (''jobId'', JStr (job_id job)),
                    (''bytes'', JNum (real (length buffer)))],
           CallUpload (s3Key (data job)) buffer (documentType (data job))] @
          (case s3_upload p (s3Key (data job)) buffer (documentType (data job)) of
             Inl e \<Rightarrow>
               [ProcError [(''msg'', JStr ''Job failed''),
                           (''jobId'', JStr (job_id job)),
                           (''queue'', JStr (queueName job)),
                           (''error'', JStr (message e)),
                           (''stack'', JStr (stack e))]]
           | Inr url \<Rightarrow>
               [ProcLog [(''msg'', JStr ''Uploaded to S3''),
                         (''jobId'', JStr (job_id job)),
                         (''s3Key'', JStr (s3Key (data job))),
                         (''url'', JStr url)],
                ProcLog [(''msg'', JStr ''Job completed''),
                         (''jobId'', JStr (job_id job)),
                         (''url'', JStr url)]]))"
  by (simp add: process_def eff_simps Let_def split: sum.splits)

lemma jobResult_metaData:
  "hasKey (jobResult job url t) ''metaData'' = (metaData (data job) \<noteq> JUndefined)"
  "map_of (jobResult job url t) ''metaData'' =
     (if metaData (data job) = JUndefined then None else Some (metaData (data job)))"
  "distinct (map fst (jobResult job url t))"
  by (auto simp: jobResult_def spreadAnd_def hasKey_def)

lemma upload_trace:
  "fst (upload svc key buffer docType) =
     (let contentType = (case docType of Pdf \<Rightarrow> ''application/pdf'' | Image \<Rightarrow> ''image/png'');
          command = \<lparr>Bucket = bucket svc, Key = key, Body = buffer, ContentType = contentType\<rparr>
      in
      [S3Log [(''msg'', JStr ''Uploading to S3''),
              (''bucket'', JStr (bucket svc)),
              (''key'', JStr key),
              (''bytes'', JNum (real (length buffer))),
              (''contentType'', JStr contentType)],
       S3Send command] @
      (case s3_send svc command of
         Inl e \<Rightarrow> []
       | Inr _ \<Rightarrow>
           [S3Log [(''msg'', JStr ''S3 upload successful''),
                   (''bucket'', JStr (bucket svc)),
                   (''key'', JStr key),
                   (''url'', JStr (''https://'' @ bucket svc @ ''.s3.amazonaws.com/'' @ key))]]))"
  by (cases docType) (simp_all add: upload_def eff_simps Let_def split: sum.splits)

lemma upload_outcome:
  "snd (upload svc key buffer docType) =
     (case s3_send svc \<lparr>Bucket = bucket svc, Key = key, Body = buffer,
                         ContentType = (case docType of Pdf \<Rightarrow> ''application/pdf''
                                                      | Image \<Rightarrow> ''image/png'')\<rparr> of
        Inl e \<Rightarrow> Inl e
      | Inr _ \<Rightarrow> Inr (''https://'' @ bucket svc @ ''.s3.amazonaws.com/'' @ key))"
  by (cases docType) (simp_all add: upload_def eff_simps Let_def split: sum.splits)

lemma worker_simps:
  "puppeteer_generatePdf (worker env svc now) html po = snd (generatePdf env html po)"
  "puppeteer_generateImage (worker env svc now) html io = snd (generateImage env html io)"
  "s3_upload (worker env svc now) key buffer docType = snd (upload svc key buffer docType)"
  "date_toISOString (worker env svc now) = now"
  by (simp_all add: worker_def)

lemma mock_job_simps:
  "job_id mock_job = ''test-job-id-123''"
  "queueName mock_job = ''pdf-generation''"
  "userId (data mock_job) = ''user-abc''"
  "documentType (data mock_job) = Pdf"
  "htmlContent (data mock_job) = ''<html><body>Ola</body></html>''"
  "s3Key (data mock_job) = ''docs/user-abc/file.pdf''"
  "pdfOptions (data mock_job) = None"
  "imageOptions (data mock_job) = None"
  "metaData (data mock_job) = JUndefined"
  by (simp_all add: mock_job_def)

lemma mock_render:
  "snd (generatePdf mock_engine html po) = Inr [37, 80, 68, 70]"
  "snd (generatePdf (mock_engine\<lparr>page_pdf := \<lambda>_. Inl e\<rparr>) html po) = Inl e"
  "snd (generateImage mock_engine html io) = Inr [137, 80, 78, 71]"
  by (simp_all add: generatePdf_outcome generateImage_outcome getExecutablePath_outcome
        pdfTryBlock_outcome imageTryBlock_def eff_simps mock_engine_simps
        screenshotOptions_def Let_def split: option.splits)

lemma mock_upload:
  "snd (upload mock_s3 key buffer docType) = Inr (''https://test-bucket.s3.amazonaws.com/'' @ key)"
  "snd (upload (mock_s3\<lparr>s3_send := \<lambda>_. Inl e\<rparr>) key buffer docType) = Inl e"
  by (simp_all add: upload_outcome mock_s3_def)

section \<open>Upload\<close>

text \<open>
  Claim C7. Every call of \<open>upload\<close> sends exactly one command to the store, for the
  configured bucket, the given key and the given bytes, whose content type is
  \<open>application/pdf\<close> for the document type pdf and \<open>image/png\<close> for the document type
  image; the requested image format is not among the arguments of \<open>upload\<close> and cannot
  change it. When the store accepts the command the returned URL is
  \<open>https://{bucket}.s3.amazonaws.com/{key}\<close>; when it fails, its error is what the caller
  gets.
\<close>

theorem upload_contentType_and_url:
  "[command. S3Send command \<leftarrow> fst (upload svc key buffer docType)] =
     [\<lparr>Bucket = bucket svc, Key = key, Body = buffer,
       ContentType = (case docType of Pdf \<Rightarrow> ''application/pdf'' | Image \<Rightarrow> ''image/png'')\<rparr>]
   \<and> snd (upload svc key buffer docType) =
       (case s3_send svc \<lparr>Bucket = bucket svc, Key = key, Body = buffer,
                           ContentType = (case docType of Pdf \<Rightarrow> ''application/pdf''
                                                        | Image \<Rightarrow> ''image/png'')\<rparr> of
          Inl e \<Rightarrow> Inl e
        | Inr _ \<Rightarrow> Inr (''https://'' @ bucket svc @ ''.s3.amazonaws.com/'' @ key))"
  by (simp add: upload_trace upload_outcome Let_def split: sum.splits)

theorem upload_contentType_and_url_witness:
  "snd (upload mock_s3 ''docs/file.pdf'' [37, 80, 68, 70] Pdf)
     = Inr ''https://test-bucket.s3.amazonaws.com/docs/file.pdf''
   \<and> [command. S3Send command \<leftarrow> fst (upload mock_s3 ''imgs/img.jpg'' [255, 216] Image)]
     = [\<lparr>Bucket = ''test-bucket'', Key = ''imgs/img.jpg'', Body = [255, 216],
         ContentType = ''image/png''\<rparr>]"
  using upload_contentType_and_url [of mock_s3 "''docs/file.pdf''" "[37, 80, 68, 70]" Pdf]
        upload_contentType_and_url [of mock_s3 "''imgs/img.jpg''" "[255, 216]" Image]
  by (simp add: mock_s3_def)

section \<open>Job processing\<close>

text \<open>
  Claim C3. When the render step of a job throws \<open>E\<close>, \<open>process\<close> rejects with the same
  \<open>E\<close>, makes no upload call, and its last action is the error log naming the job, the
  queue, the message and the stack of \<open>E\<close>. When the render step gives bytes and the upload
  throws \<open>E\<close>, \<open>process\<close> rejects with \<open>E\<close> after the same error log, and returns no
  result. Whenever \<open>process\<close> returns a result, the render step gave bytes, the upload of
  those bytes was called and returned a URL, and the result is the one built from that URL.
\<close>

theorem process_failure:
  "(snd (renderStep p job) = Inl E \<longrightarrow>
      snd (process p job) = Inl E
      \<and> (\<forall>key buffer docType. CallUpload key buffer docType \<notin> set (fst (process p job)))
      \<and> last (fst (process p job)) =
          ProcError [(''msg'', JStr ''Job failed''),
                     (''jobId'', JStr (job_id job)),
                     (''queue'', JStr (queueName job)),
                     (''error'', JStr (message E)),
                     (''stack'', JStr (stack E))])
   \<and> (snd (renderStep p job) = Inr buffer \<and>
       s3_upload p (s3Key (data job)) buffer (documentType (data job)) = Inl E \<longrightarrow>
      snd (process p job) = Inl E
      \<and> last (fst (process p job)) =
          ProcError [(''msg'', JStr ''Job failed''),
                     (''jobId'', JStr (job_id job)),
                     (''queue'', JStr (queueName job)),
                     (''error'', JStr (message E)),
                     (''stack'', JStr (stack E))])
   \<and> (snd (process p job) = Inr result \<longrightarrow>
        (\<exists>bytes url.
           snd (renderStep p job) = Inr bytes
           \<and> CallUpload (s3Key (data job)) bytes (documentType (data job)) \<in> set (fst (process p job))
           \<and> s3_upload p (s3Key (data job)) bytes (documentType (data job)) = Inr url
           \<and> result = jobResult job url (date_toISOString p)))"
proof (intro conjI impI)
  assume "snd (renderStep p job) = Inl E"
  then show "snd (process p job) = Inl E"
    by (simp add: process_outcome)
next
  assume "snd (renderStep p job) = Inl E"
  then show "\<forall>key buffer docType. CallUpload key buffer docType \<notin> set (fst (process p job))"
    by (simp add: process_trace renderStep_trace)
next
  assume "snd (renderStep p job) = Inl E"
  then show "last (fst (process p job)) =
          ProcError [(''msg'', JStr ''Job failed''),
                     (''jobId'', JStr (job_id job)),
                     (''queue'', JStr (queueName job)),
                     (''error'', JStr (message E)),
                     (''stack'', JStr (stack E))]"
    by (simp add: process_trace renderStep_trace)
next
  assume "snd (renderStep p job) = Inr buffer \<and>
       s3_upload p (s3Key (data job)) buffer (documentType (data job)) = Inl E"
  then show "snd (process p job) = Inl E"
    by (simp add: process_outcome)
next
  assume "snd (renderStep p job) = Inr buffer \<and>
       s3_upload p (s3Key (data job)) buffer (documentType (data job)) = Inl E"
  then show "last (fst (process p job)) =
          ProcError [(''msg'', JStr ''Job failed''),
                     (''jobId'', JStr (job_id job)),
                     (''queue'', JStr (queueName job)),
                     (''error'', JStr (message E)),
                     (''stack'', JStr (stack E))]"
    by (simp add: process_trace renderStep_trace)
next
  assume "snd (process p job) = Inr result"
  then show "\<exists>bytes url.
           snd (renderStep p job) = Inr bytes
           \<and> CallUpload (s3Key (data job)) bytes (documentType (data job)) \<in> set (fst (process p job))
           \<and> s3_upload p (s3Key (data job)) bytes (documentType (data job)) = Inr url
           \<and> result = jobResult job url (date_toISOString p)"
    by (auto simp: process_outcome process_trace split: sum.splits)
qed

theorem process_failure_witness:
  "snd (renderStep (worker (mock_engine\<lparr>page_pdf := \<lambda>_. Inl render_failed\<rparr>) mock_s3
                      ''2026-01-01T00:00:00.000Z'') mock_job) = Inl render_failed
   \<and> snd (process (worker (mock_engine\<lparr>page_pdf := \<lambda>_. Inl render_failed\<rparr>) mock_s3
                      ''2026-01-01T00:00:00.000Z'') mock_job) = Inl render_failed
   \<and> snd (renderStep (worker mock_engine (mock_s3\<lparr>s3_send := \<lambda>_. Inl close_failed\<rparr>)
                      ''2026-01-01T00:00:00.000Z'') mock_job) = Inr [37, 80, 68, 70]
   \<and> snd (process (worker mock_engine (mock_s3\<lparr>s3_send := \<lambda>_. Inl close_failed\<rparr>)
                      ''2026-01-01T00:00:00.000Z'') mock_job) = Inl close_failed
   \<and> snd (process (worker mock_engine mock_s3 ''2026-01-01T00:00:00.000Z'') mock_job)
       = Inr [(''url'', JStr ''https://test-bucket.s3.amazonaws.com/docs/user-abc/file.pdf''),
              (''userId'', JStr ''user-abc''),
              (''completedAt'', JStr ''2026-01-01T00:00:00.000Z'')]
   \<and> s3_upload (worker mock_engine mock_s3 ''2026-01-01T00:00:00.000Z'')
         ''docs/user-abc/file.pdf'' [37, 80, 68, 70] Pdf
       = Inr ''https://test-bucket.s3.amazonaws.com/docs/user-abc/file.pdf''"
proof -
  let ?now = "''2026-01-01T00:00:00.000Z''"
  let ?p1 = "worker (mock_engine\<lparr>page_pdf := \<lambda>_. Inl render_failed\<rparr>) mock_s3 ?now"
  let ?p2 = "worker mock_engine (mock_s3\<lparr>s3_send := \<lambda>_. Inl close_failed\<rparr>) ?now"
  let ?p3 = "worker mock_engine mock_s3 ?now"
  let ?result = "[(''url'', JStr ''https://test-bucket.s3.amazonaws.com/docs/user-abc/file.pdf''),
              (''userId'', JStr ''user-abc''),
              (''completedAt'', JStr ?now)]"
  have r1: "snd (renderStep ?p1 mock_job) = Inl render_failed"
    by (simp add: renderStep_outcome worker_simps mock_job_simps mock_render)
  have r2: "snd (renderStep ?p2 mock_job) = Inr [37, 80, 68, 70] \<and>
            s3_upload ?p2 (s3Key (data mock_job)) [37, 80, 68, 70] (documentType (data mock_job))
              = Inl close_failed"
    by (simp add: renderStep_outcome worker_simps mock_job_simps mock_render mock_upload)
  have r3: "snd (process ?p3 mock_job) = Inr ?result"
    by (simp add: process_outcome renderStep_outcome worker_simps mock_job_simps mock_render
          mock_upload jobResult_def spreadAnd_def)
  from process_failure [of ?p1 mock_job render_failed "[]" "[]"] r1
  have 1: "snd (process ?p1 mock_job) = Inl render_failed"
    by blast
  from process_failure [of ?p2 mock_job close_failed "[37, 80, 68, 70]" "[]"] r2
  have 2: "snd (process ?p2 mock_job) = Inl close_failed"
    by blast
  from process_failure [of ?p3 mock_job render_failed "[]" ?result] r3
  obtain bytes url where
    3: "snd (renderStep ?p3 mock_job) = Inr bytes"
       "s3_upload ?p3 (s3Key (data mock_job)) bytes (documentType (data mock_job)) = Inr url"
    by blast
  then have "s3_upload ?p3 ''docs/user-abc/file.pdf'' [37, 80, 68, 70] Pdf
       = Inr ''https://test-bucket.s3.amazonaws.com/docs/user-abc/file.pdf''"
    by (simp add: worker_simps mock_upload)
  with r1 r2 r3 1 2 show ?thesis
    by simp
qed

text \<open>
  Claim C5. For every job that \<open>process\<close> completes, the result has the key
  \<open>metaData\<close> exactly when the job's \<open>metaData\<close> is not \<open>undefined\<close>; when it has
  the key, its value is the job's \<open>metaData\<close> as it came; when the job has none, looking
  the key up finds nothing. No key of the result occurs twice.
\<close>

theorem process_metaData:
  assumes "snd (process p job) = Inr result"
  shows "(hasKey result ''metaData'' \<longleftrightarrow> metaData (data job) \<noteq> JUndefined)
       \<and> (metaData (data job) \<noteq> JUndefined \<longrightarrow>
            map_of result ''metaData'' = Some (metaData (data job)))
       \<and> (metaData (data job) = JUndefined \<longrightarrow> map_of result ''metaData'' = None)
       \<and> distinct (map fst result)"
proof -
  from assms obtain url where "result = jobResult job url (date_toISOString p)"
    by (auto simp: process_outcome split: sum.splits)
  then show ?thesis
    by (simp add: jobResult_metaData)
qed

theorem process_metaData_witness:
  "snd (process (worker mock_engine mock_s3 ''2026-01-01T00:00:00.000Z'')
          (mock_job\<lparr>data := (data mock_job)\<lparr>metaData := JObj [(''invoiceId'', JStr ''INV-1'')]\<rparr>\<rparr>))
     = Inr [(''url'', JStr ''https://test-bucket.s3.amazonaws.com/docs/user-abc/file.pdf''),
            (''userId'', JStr ''user-abc''),
            (''completedAt'', JStr ''2026-01-01T00:00:00.000Z''),
            (''metaData'', JObj [(''invoiceId'', JStr ''INV-1'')])]
   \<and> hasKey [(''url'', JStr ''https://test-bucket.s3.amazonaws.com/docs/user-abc/file.pdf''),
              (''userId'', JStr ''user-abc''),
              (''completedAt'', JStr ''2026-01-01T00:00:00.000Z''),
              (''metaData'', JObj [(''invoiceId'', JStr ''INV-1'')])] ''metaData''
   \<and> snd (process (worker mock_engine mock_s3 ''2026-01-01T00:00:00.000Z'') mock_job)
     = Inr [(''url'', JStr ''https://test-bucket.s3.amazonaws.com/docs/user-abc/file.pdf''),
            (''userId'', JStr ''user-abc''),
            (''completedAt'', JStr ''2026-01-01T00:00:00.000Z'')]
   \<and> \<not> hasKey [(''url'', JStr ''https://test-bucket.s3.amazonaws.com/docs/user-abc/file.pdf''),
                (''userId'', JStr ''user-abc''),
                (''completedAt'', JStr ''2026-01-01T00:00:00.000Z'')] ''metaData''"
proof -
  let ?p = "worker mock_engine mock_s3 ''2026-01-01T00:00:00.000Z''"
  let ?meta = "JObj [(''invoiceId'', JStr ''INV-1'')]"
  let ?job = "mock_job\<lparr>data := (data mock_job)\<lparr>metaData := ?meta\<rparr>\<rparr>"
  let ?with = "[(''url'', JStr ''https://test-bucket.s3.amazonaws.com/docs/user-abc/file.pdf''),
            (''userId'', JStr ''user-abc''),
            (''completedAt'', JStr ''2026-01-01T00:00:00.000Z''),
            (''metaData'', ?meta)]"
  let ?without = "[(''url'', JStr ''https://test-bucket.s3.amazonaws.com/docs/user-abc/file.pdf''),
            (''userId'', JStr ''user-abc''),
            (''completedAt'', JStr ''2026-01-01T00:00:00.000Z'')]"
  have a: "snd (process ?p ?job) = Inr ?with"
    by (simp add: process_outcome renderStep_outcome worker_simps mock_job_simps mock_render
          mock_upload jobResult_def spreadAnd_def)
  have b: "snd (process ?p mock_job) = Inr ?without"
    by (simp add: process_outcome renderStep_outcome worker_simps mock_job_simps mock_render
          mock_upload jobResult_def spreadAnd_def)
  from process_metaData [OF a] have "hasKey ?with ''metaData''"
    by simp
  moreover from process_metaData [OF b] have "\<not> hasKey ?without ''metaData''"
    by (simp add: mock_job_simps)
  ultimately show ?thesis
    using a b by simp
qed

text \<open>
  Claim C10. For a job of document type pdf, replacing \<open>imageOptions\<close> by anything
  leaves the whole run of \<open>process\<close> unchanged: the same log lines, the same render call,
  the same upload call, the same outcome. Run at another time \<open>t\<close>, the calls are still
  the same and the outcome differs at most in \<open>completedAt\<close>. The same holds for a job of
  document type image and its \<open>pdfOptions\<close>.
\<close>

theorem process_ignores_other_options:
  "(documentType (data job) = Pdf \<longrightarrow>
      process p (job\<lparr>data := (data job)\<lparr>imageOptions := io\<rparr>\<rparr>) = process p job
      \<and> fst (process (p\<lparr>date_toISOString := t\<rparr>) (job\<lparr>data := (data job)\<lparr>imageOptions := io\<rparr>\<rparr>))
          = fst (process p job)
      \<and> map_sum id (filter (\<lambda>kv. fst kv \<noteq> ''completedAt''))
           (snd (process (p\<lparr>date_toISOString := t\<rparr>) (job\<lparr>data := (data job)\<lparr>imageOptions := io\<rparr>\<rparr>)))
          = map_sum id (filter (\<lambda>kv. fst kv \<noteq> ''completedAt'')) (snd (process p job)))
   \<and> (documentType (data job) = Image \<longrightarrow>
      process p (job\<lparr>data := (data job)\<lparr>pdfOptions := po\<rparr>\<rparr>) = process p job
      \<and> fst (process (p\<lparr>date_toISOString := t\<rparr>) (job\<lparr>data := (data job)\<lparr>pdfOptions := po\<rparr>\<rparr>))
          = fst (process p job)
      \<and> map_sum id (filter (\<lambda>kv. fst kv \<noteq> ''completedAt''))
           (snd (process (p\<lparr>date_toISOString := t\<rparr>) (job\<lparr>data := (data job)\<lparr>pdfOptions := po\<rparr>\<rparr>)))
          = map_sum id (filter (\<lambda>kv. fst kv \<noteq> ''completedAt'')) (snd (process p job)))"
  by (auto simp: prod_eq_iff process_outcome process_trace renderStep_trace renderStep_outcome
        jobResult_def spreadAnd_def split: sum.splits)

theorem process_ignores_other_options_witness:
  "documentType (data mock_job) = Pdf
   \<and> process (worker mock_engine mock_s3 ''2026-01-01T00:00:00.000Z'')
        (mock_job\<lparr>data := (data mock_job)
                   \<lparr>imageOptions := Some (no_imageOptions\<lparr>type := Some Jpeg\<rparr>)\<rparr>\<rparr>)
     = process (worker mock_engine mock_s3 ''2026-01-01T00:00:00.000Z'') mock_job
   \<and> documentType (data (mock_job\<lparr>data := (data mock_job)\<lparr>documentType := Image\<rparr>\<rparr>)) = Image
   \<and> process (worker mock_engine mock_s3 ''2026-01-01T00:00:00.000Z'')
        (mock_job\<lparr>data := (data mock_job)
                   \<lparr>documentType := Image, pdfOptions := Some (no_pdfOptions\<lparr>landscape := Some True\<rparr>)\<rparr>\<rparr>)
     = process (worker mock_engine mock_s3 ''2026-01-01T00:00:00.000Z'')
        (mock_job\<lparr>data := (data mock_job)\<lparr>documentType := Image\<rparr>\<rparr>)"
proof -
  let ?p = "worker mock_engine mock_s3 ''2026-01-01T00:00:00.000Z''"
  let ?image = "mock_job\<lparr>data := (data mock_job)\<lparr>documentType := Image\<rparr>\<rparr>"
  have pdf: "documentType (data mock_job) = Pdf"
    by (simp add: mock_job_simps)
  have image: "documentType (data ?image) = Image"
    by simp
  from process_ignores_other_options
         [of mock_job ?p "Some (no_imageOptions\<lparr>type := Some Jpeg\<rparr>)" "[]" None] pdf
  have 1: "process ?p (mock_job\<lparr>data := (data mock_job)
                   \<lparr>imageOptions := Some (no_imageOptions\<lparr>type := Some Jpeg\<rparr>)\<rparr>\<rparr>)
           = process ?p mock_job"
    by blast
  from process_ignores_other_options
         [of ?image ?p None "[]" "Some (no_pdfOptions\<lparr>landscape := Some True\<rparr>)"] image
  have 2: "process ?p (?image\<lparr>data := (data ?image)
                   \<lparr>pdfOptions := Some (no_pdfOptions\<lparr>landscape := Some True\<rparr>)\<rparr>\<rparr>)
           = process ?p ?image"
    by blast
  from pdf image 1 2 show ?thesis
    by simp
qed

end
